theory Spec2Isabelle
  imports Complex_Main "HOL-Library.Sublist"
begin

chapter \<open>omc3: a shallow embedding of the correction, optics and k-modulation code\<close>

text \<open>
  Conventions of the embedding.

  \<^item> A Python float is a real number or NaN: \<open>fnum = real option\<close>, with \<open>None\<close> for
    NaN. Rounding is not modelled. Where the source can only hold finite numbers the
    model uses \<open>real\<close> directly.
  \<^item> An exception is a value of the type \<open>exn\<close>; a function that can raise returns
    \<open>exn + 'a\<close> with \<open>Inl\<close> the exception.
  \<^item> What the source obtains from an external library or process (a minimiser, a
    pseudo-inverse, a regular-expression engine, the lattice simulator, the clock) is a
    parameter of the model.
\<close>

section \<open>Shared data\<close>

datatype exn = ValueError | KeyError | TypeError | IndexError | NotImplementedError | IOError | ReError

type_synonym fnum = "real option"

text \<open>Arithmetic on floats: NaN is absorbing.\<close>

definition fop2 :: "(real \<Rightarrow> real \<Rightarrow> real) \<Rightarrow> fnum \<Rightarrow> fnum \<Rightarrow> fnum" where
  "fop2 f a b = (case a of None \<Rightarrow> None | Some x \<Rightarrow> (case b of None \<Rightarrow> None | Some y \<Rightarrow> Some (f x y)))"

definition fadd :: "fnum \<Rightarrow> fnum \<Rightarrow> fnum" where
  "fadd = fop2 (+)"

definition fsub :: "fnum \<Rightarrow> fnum \<Rightarrow> fnum" where
  "fsub = fop2 (-)"

definition fmul :: "fnum \<Rightarrow> fnum \<Rightarrow> fnum" where
  "fmul = fop2 (*)"

definition fneg :: "fnum \<Rightarrow> fnum" where
  "fneg a = map_option uminus a"

text \<open>A comparison with NaN is false, as in IEEE 754 and numpy.\<close>

definition fgt :: "fnum \<Rightarrow> real \<Rightarrow> bool" where
  "fgt a t = (case a of None \<Rightarrow> False | Some x \<Rightarrow> x > t)"

definition fle :: "fnum \<Rightarrow> fnum \<Rightarrow> bool" where
  "fle a b = (case a of None \<Rightarrow> False | Some x \<Rightarrow> (case b of None \<Rightarrow> False | Some y \<Rightarrow> x \<le> y))"

definition fge :: "fnum \<Rightarrow> fnum \<Rightarrow> bool" where
  "fge a b = (case a of None \<Rightarrow> False | Some x \<Rightarrow> (case b of None \<Rightarrow> False | Some y \<Rightarrow> x \<ge> y))"

definition fabs :: "fnum \<Rightarrow> fnum" where
  "fabs a = map_option abs a"

text \<open>\<open>Series.dropna()\<close>: the values that are not NaN, in order.\<close>

definition dropna :: "fnum list \<Rightarrow> real list" where
  "dropna xs = map the (filter (\<lambda>x. x \<noteq> None) xs)"

text \<open>\<open>np.average\<close> of a one-dimensional array: NaN for an empty array.\<close>

definition np_average :: "real list \<Rightarrow> fnum" where
  "np_average xs = (if xs = [] then None else Some (sum_list xs / real (length xs)))"

text \<open>Reading a header or dictionary entry raises \<open>KeyError\<close> when the key is absent.\<close>

definition getitem :: "('k \<rightharpoonup> 'v) \<Rightarrow> 'k \<Rightarrow> exn + 'v" where
  "getitem m k = (case m k of None \<Rightarrow> Inl KeyError | Some v \<Rightarrow> Inr v)"

section \<open>kmod/kmod\_analysis.py\<close>

text \<open>
  A tune-shift table of one modulated magnet. The columns \<open>get_k_col()\<close>,
  \<open>get_tune_col(plane)\<close> and \<open>get_cleaned_col(plane)\<close> of the source are the fields of a
  row; the header is a dictionary from names to floats. The names come from
  \<open>kmod_constants\<close>, which is a parameter: \<open>k_col\<close> is the string \<open>get_k_col()\<close> returns,
  \<open>tune_col p\<close> the string \<open>get_tune_col(p)\<close> returns.
\<close>

record magnet_row =
  K :: fnum
  TUNEX :: fnum
  TUNEY :: fnum
  CLEANED_X :: bool
  CLEANED_Y :: bool

record magnet_df =
  headers :: "string \<rightharpoonup> fnum"
  rows :: "magnet_row list"

record kmod_constants =
  k_col :: string
  tune_col :: "string \<Rightarrow> string"

definition cleaned :: "string \<Rightarrow> magnet_row \<Rightarrow> bool" where
  "cleaned plane r = (if plane = ''X'' then CLEANED_X r else CLEANED_Y r)"

text \<open>
  \<open>magnet_df.where(magnet_df[cleaned_col(plane)] == True)[col].dropna()\<close>: the values of
  a column in the rows whose cleaned flag of the plane is set, NaN dropped.
\<close>

definition cleaned_values :: "string \<Rightarrow> (magnet_row \<Rightarrow> fnum) \<Rightarrow> magnet_df \<Rightarrow> real list" where
  "cleaned_values plane col df = dropna (map (\<lambda>r. if cleaned plane r then col r else None) (rows df))"

definition set_header :: "string \<Rightarrow> fnum \<Rightarrow> magnet_df \<Rightarrow> magnet_df" where
  "set_header k v df = df\<lparr>headers := (headers df)(k \<mapsto> v)\<rparr>"

definition calc_tune :: "kmod_constants \<Rightarrow> magnet_df \<Rightarrow> magnet_df" where
  "calc_tune C magnet_df =
     (let df1 = set_header (tune_col C ''X'') (np_average (cleaned_values ''X'' TUNEX magnet_df)) magnet_df;
          df2 = set_header (tune_col C ''Y'') (np_average (cleaned_values ''Y'' TUNEY df1)) df1
      in df2)"

text \<open>The two assignments of \<open>calc_k\<close>, in the order of the source, both to the header \<open>get_k_col()\<close>.\<close>

definition calc_k :: "kmod_constants \<Rightarrow> magnet_df \<Rightarrow> magnet_df" where
  "calc_k C magnet_df =
     (let df1 = set_header (k_col C) (np_average (cleaned_values ''X'' K magnet_df)) magnet_df;
          df2 = set_header (k_col C) (np_average (cleaned_values ''Y'' K df1)) df1
      in df2)"

text \<open>
  \<open>return_fit_input\<close>: row 0 is \<open>sign * (K - headers[k_col]) * headers['LENGTH']\<close> over
  the cleaned rows of the plane, row 1 repeats the tune header of the plane.
\<close>

definition return_fit_input :: "kmod_constants \<Rightarrow> magnet_df \<Rightarrow> string \<Rightarrow> exn + (fnum list \<times> fnum list)" where
  "return_fit_input C magnet_df plane =
     (let ks = cleaned_values plane K magnet_df in
      case getitem (headers magnet_df) ''POLARITY'' of Inl e \<Rightarrow> Inl e | Inr pol \<Rightarrow>
      (let sign = (if plane = ''X'' then pol else fmul (Some (-1)) pol) in
       case getitem (headers magnet_df) (k_col C) of Inl e \<Rightarrow> Inl e | Inr kav \<Rightarrow>
       (case getitem (headers magnet_df) ''LENGTH'' of Inl e \<Rightarrow> Inl e | Inr len \<Rightarrow>
        (case getitem (headers magnet_df) (tune_col C plane) of Inl e \<Rightarrow> Inl e | Inr q \<Rightarrow>
           Inr (map (\<lambda>k. fmul (fmul sign (fsub (Some k) kav)) len) ks, map (\<lambda>k. q) ks)))))"

text \<open>
  \<open>return_df\<close>: a Python function that reaches its end without \<open>return\<close> returns
  \<open>None\<close>; the result is an option.
\<close>

definition polarity_is :: "magnet_df \<Rightarrow> real \<Rightarrow> exn + bool" where
  "polarity_is df v = (case getitem (headers df) ''POLARITY'' of Inl e \<Rightarrow> Inl e | Inr p \<Rightarrow> Inr (p = Some v))"

text \<open>Python's short-circuit \<open>a and b\<close> and \<open>if c: t else: e\<close> over conditions that can raise.\<close>

definition py_and :: "exn + bool \<Rightarrow> exn + bool \<Rightarrow> exn + bool" where
  "py_and a b = (case a of Inl e \<Rightarrow> Inl e | Inr c \<Rightarrow> if c then b else Inr False)"

definition py_if :: "exn + bool \<Rightarrow> exn + 'a \<Rightarrow> exn + 'a \<Rightarrow> exn + 'a" where
  "py_if c t e = (case c of Inl x \<Rightarrow> Inl x | Inr b \<Rightarrow> if b then t else e)"

definition return_df :: "magnet_df \<Rightarrow> magnet_df \<Rightarrow> string \<Rightarrow> exn + (magnet_df \<times> magnet_df) option" where
  "return_df magnet1_df magnet2_df plane =
     (if plane = ''X'' then
        py_if (py_and (polarity_is magnet1_df 1) (polarity_is magnet2_df (-1)))
          (Inr (Some (magnet1_df, magnet2_df)))
          (py_if (py_and (polarity_is magnet1_df (-1)) (polarity_is magnet2_df 1))
             (Inr (Some (magnet2_df, magnet1_df)))
             (Inr None))
      else if plane = ''Y'' then
        py_if (py_and (polarity_is magnet1_df (-1)) (polarity_is magnet2_df 1))
          (Inr (Some (magnet1_df, magnet2_df)))
          (py_if (py_and (polarity_is magnet1_df 1) (polarity_is magnet2_df (-1)))
             (Inr (Some (magnet2_df, magnet1_df)))
             (Inr None))
      else Inr None)"

text \<open>\<open>return_sign_for_err(n)\<close>: a zero matrix whose rows 1, 3, ... are set to the identity and rows 2, 4, ... to its negation.\<close>

definition eye_row :: "nat \<Rightarrow> nat \<Rightarrow> real list" where
  "eye_row n i = map (\<lambda>j. if j = i then 1 else 0) [0..<n]"

definition return_sign_for_err :: "nat \<Rightarrow> real list list" where
  "return_sign_for_err n =
     map (\<lambda>k. if k = 0 then replicate n 0
              else if odd k then eye_row n ((k - 1) div 2)
              else map uminus (eye_row n ((k - 2) div 2))) [0..<2 * n + 1]"

text \<open>The slice \<open>xs[1::2]\<close>.\<close>

fun slice_1_2 :: "'a list \<Rightarrow> 'a list" where
  "slice_1_2 [] = []"
| "slice_1_2 [x] = []"
| "slice_1_2 (x # y # xs) = y # slice_1_2 xs"

text \<open>
  The error expression of \<open>get_beta_waist\<close> on one column \<open>col\<close> of \<open>results\<close>:
  \<open>np.sqrt(np.sum(np.maximum(np.absolute(col[1::2] - col[0]), abs(col[1::2] - col[0])) ** 2))\<close>.
  Both arguments of \<open>np.maximum\<close> are written as in the source.
\<close>

definition envelope_err :: "real list \<Rightarrow> real" where
  "envelope_err col =
     sqrt (sum_list (map (\<lambda>v. (max (abs (v - hd col)) (abs (v - hd col)))\<^sup>2) (slice_1_2 col)))"

text \<open>
  \<open>get_beta_waist\<close>. The Nelder-Mead minimisation of \<open>chi2\<close> for one sign row is the
  parameter \<open>fit\<close>, which returns \<open>(fitresults.x[0], fitresults.x[1])\<close>. Unpacking the
  \<open>None\<close> that \<open>return_df\<close> may return raises \<open>TypeError\<close>.
\<close>

definition get_beta_waist ::
  "(magnet_df \<Rightarrow> magnet_df \<Rightarrow> string \<Rightarrow> real list \<Rightarrow> real \<times> real) \<Rightarrow>
   magnet_df \<Rightarrow> magnet_df \<Rightarrow> string \<Rightarrow> exn + (real \<times> real \<times> real \<times> real)" where
  "get_beta_waist fit magnet1_df magnet2_df plane =
     (let sign = return_sign_for_err 8 in
      case return_df magnet1_df magnet2_df plane of
        Inl e \<Rightarrow> Inl e
      | Inr None \<Rightarrow> Inl TypeError
      | Inr (Some (foc_magnet_df, def_magnet_df)) \<Rightarrow>
          (let results = map (\<lambda>s. fit foc_magnet_df def_magnet_df plane s) sign;
               beta_waist_err = envelope_err (map fst results);
               waist_err = envelope_err (map snd results)
           in Inr (fst (hd results), beta_waist_err, snd (hd results), waist_err)))"

section \<open>tune\_analysis/bbq\_tools.py\<close>

text \<open>\<open>bool(x)\<close> of an optional number: \<open>None\<close> and zero are false.\<close>

definition truthy :: "'a::zero option \<Rightarrow> bool" where
  "truthy x = (case x of None \<Rightarrow> False | Some v \<Rightarrow> v \<noteq> 0)"

definition mask_or :: "bool list \<Rightarrow> bool list \<Rightarrow> bool list" where
  "mask_or a b = map2 (\<or>) a b"

definition isna :: "fnum list \<Rightarrow> bool list" where
  "isna xs = map (\<lambda>x. x = None) xs"

text \<open>Lines 48 to 58 of \<open>get_moving_average\<close>: the exclusion mask.\<close>

definition exclusion_mask :: "fnum list \<Rightarrow> real option \<Rightarrow> real option \<Rightarrow> bool list" where
  "exclusion_mask data_series min_val max_val =
     (let min_mask = (case min_val of Some m \<Rightarrow> map (\<lambda>x. fle x (Some m)) data_series
                                    | None \<Rightarrow> replicate (length data_series) False);
          max_mask = (case max_val of Some m \<Rightarrow> map (\<lambda>x. fge x (Some m)) data_series
                                    | None \<Rightarrow> replicate (length data_series) False)
      in mask_or (mask_or min_mask max_mask) (isna data_series))"

text \<open>\<open>sum(mask)\<close> of a boolean series is the number of its true entries.\<close>

definition is_almost_empty_mask :: "bool list \<Rightarrow> int \<Rightarrow> exn + unit" where
  "is_almost_empty_mask msk av_length =
     (if int (length (filter id msk)) \<le> av_length then Inl ValueError else Inr ())"

text \<open>
  \<open>get_moving_average\<close>. The pandas pipeline of \<open>_get_interpolated_moving_average\<close>
  (interpolation over the index, rolling mean and standard deviation, shift and fill) is the
  parameter \<open>mav\<close>; it returns the two series \<open>(data_mav, std_mav)\<close>.
\<close>

definition get_moving_average ::
  "(fnum list \<Rightarrow> bool list \<Rightarrow> int \<Rightarrow> fnum list \<times> fnum list) \<Rightarrow>
   fnum list \<Rightarrow> int \<Rightarrow> real option \<Rightarrow> real option \<Rightarrow> int option \<Rightarrow> real option \<Rightarrow>
   exn + (fnum list \<times> fnum list \<times> bool list)" where
  "get_moving_average mav data_series len min_val max_val fine_length fine_cut =
     (if truthy fine_length \<noteq> truthy fine_cut then Inl NotImplementedError
      else
        (let cut_mask = exclusion_mask data_series min_val max_val in
         case is_almost_empty_mask (map Not cut_mask) len of
           Inl e \<Rightarrow> Inl e
         | Inr _ \<Rightarrow>
            (let (data_mav, std_mav) = mav data_series cut_mask len in
             case fine_length of
               None \<Rightarrow> Inr (data_mav, std_mav, cut_mask)
             | Some fl \<Rightarrow>
                (case fine_cut of
                   None \<Rightarrow> Inl TypeError
                 | Some fc \<Rightarrow>
                    (let min_mask = map2 (\<lambda>x m. fle x (fsub m (Some fc))) data_series data_mav;
                         max_mask = map2 (\<lambda>x m. fge x (fadd m (Some fc))) data_series data_mav;
                         cut_mask2 = mask_or (mask_or min_mask max_mask) (isna data_series)
                     in case is_almost_empty_mask (map Not cut_mask2) fl of
                          Inl e \<Rightarrow> Inl e
                        | Inr _ \<Rightarrow>
                           (let (data_mav2, std_mav2) = mav data_series cut_mask2 fl
                            in Inr (data_mav2, std_mav2, cut_mask2)))))))"

text \<open>
  The error kind \<open>InvalidInput\<close> of the specification covers the guards of the source
  that raise \<open>ValueError\<close> and the check of the paired options, which raises
  \<open>NotImplementedError\<close>.
\<close>

definition InvalidInput :: "exn \<Rightarrow> bool" where
  "InvalidInput e = (e = ValueError \<or> e = NotImplementedError)"

section \<open>Paths (posixpath)\<close>

definition path_join :: "string \<Rightarrow> string \<Rightarrow> string" where
  "path_join a b =
     (if prefix ''/'' b then b
      else if a = [] \<or> suffix ''/'' a then a @ b
      else a @ ''/'' @ b)"

definition rstrip_sep :: "string \<Rightarrow> string" where
  "rstrip_sep s = rev (dropWhile (\<lambda>c. c = CHR ''/'') (rev s))"

text \<open>\<open>os.path.dirname\<close>: the part up to the last separator, without trailing separators unless it consists of separators only.\<close>

definition dirname :: "string \<Rightarrow> string" where
  "dirname p =
     (let head = rev (dropWhile (\<lambda>c. c \<noteq> CHR ''/'') (rev p))
      in if head \<noteq> [] \<and> \<not> list_all (\<lambda>c. c = CHR ''/'') head then rstrip_sep head else head)"

text \<open>\<open>str.lower()\<close> on one ASCII character.\<close>

definition lower_char :: "char \<Rightarrow> char" where
  "lower_char c =
     (case map_of (zip ''ABCDEFGHIJKLMNOPQRSTUVWXYZ'' ''abcdefghijklmnopqrstuvwxyz'') c of
        None \<Rightarrow> c | Some l \<Rightarrow> l)"

section \<open>correction/handler.py: loading the measurement\<close>

text \<open>
  A table read by \<open>tfs.read(..., index="NAME")\<close>: headers, the index and the columns.
  \<open>frame[key]\<close> on a \<open>TfsDataFrame\<close> is the column of that name, else the header of
  that name, else \<open>KeyError\<close>.
\<close>

record tfs_df =
  tfs_headers :: "string \<rightharpoonup> fnum"
  tfs_index :: "string list"
  tfs_columns :: "string \<rightharpoonup> fnum list"

datatype item = Column "fnum list" | Header fnum

definition tfs_getitem :: "tfs_df \<Rightarrow> string \<Rightarrow> exn + item" where
  "tfs_getitem df k =
     (case tfs_columns df k of
        Some c \<Rightarrow> Inr (Column c)
      | None \<Rightarrow> (case tfs_headers df k of Some h \<Rightarrow> Inr (Header h) | None \<Rightarrow> Inl KeyError))"

text \<open>
  The names of \<open>optics_measurements.constants\<close> and \<open>correction.constants\<close> are
  parameters, as is \<open>tfs.read\<close> on a path (\<open>file_read\<close>).
\<close>

record name_constants =
  PHASE_NAME :: string
  DISPERSION_NAME :: string
  NORM_DISP_NAME :: string
  EXT :: string
  VALUE :: string
  ERROR :: string

definition read_meas :: "(string \<Rightarrow> exn + tfs_df) \<Rightarrow> string \<Rightarrow> string \<Rightarrow> exn + tfs_df" where
  "read_meas file_read meas_dir filename = file_read (path_join meas_dir filename)"

text \<open>\<open>np.remainder(x, 1)\<close> on a float: the fractional part \<open>x - floor x\<close>, NaN for NaN.\<close>

definition remainder1 :: "fnum \<Rightarrow> fnum" where
  "remainder1 x = map_option frac x"

text \<open>
  The table built for the key \<open>"Q"\<close>. The dictionary display evaluates its entries in
  order, so the phase file is read twice. A column (a series) in the place of a tune makes
  the two-dimensional \<open>VALUE\<close> data unusable for the frame, which raises.
\<close>

definition tune_table :: "name_constants \<Rightarrow> (string \<Rightarrow> exn + tfs_df) \<Rightarrow> string \<Rightarrow> exn + tfs_df" where
  "tune_table C file_read meas_dir =
     (case read_meas file_read meas_dir (PHASE_NAME C @ ''x'' @ EXT C) of Inl e \<Rightarrow> Inl e | Inr f1 \<Rightarrow>
      (case tfs_getitem f1 ''Q1'' of Inl e \<Rightarrow> Inl e | Inr q1 \<Rightarrow>
       (case read_meas file_read meas_dir (PHASE_NAME C @ ''x'' @ EXT C) of Inl e \<Rightarrow> Inl e | Inr f2 \<Rightarrow>
        (case tfs_getitem f2 ''Q2'' of Inl e \<Rightarrow> Inl e | Inr q2 \<Rightarrow>
         (case q1 of Column _ \<Rightarrow> Inl ValueError | Header a \<Rightarrow>
          (case q2 of Column _ \<Rightarrow> Inl ValueError | Header b \<Rightarrow>
             Inr \<lparr>tfs_headers = Map.empty, tfs_index = [''Q1'', ''Q2''],
                  tfs_columns = [VALUE C \<mapsto> [remainder1 a, remainder1 b],
                                 ERROR C \<mapsto> [Some (1 / 1000), Some (1 / 1000)]]\<rparr>))))))"

text \<open>\<open>[k for k in keys if w_dict[k] != 0]\<close>; a key without a weight raises \<open>KeyError\<close>.\<close>

fun filter_keys :: "(string \<rightharpoonup> real) \<Rightarrow> string list \<Rightarrow> exn + string list" where
  "filter_keys w_dict [] = Inr []"
| "filter_keys w_dict (k # ks) =
     (case getitem w_dict k of
        Inl e \<Rightarrow> Inl e
      | Inr wk \<Rightarrow> (case filter_keys w_dict ks of
                    Inl e \<Rightarrow> Inl e
                  | Inr r \<Rightarrow> Inr (if wk \<noteq> 0 then k # r else r)))"

definition store_meas ::
  "(string \<rightharpoonup> tfs_df) \<Rightarrow> string \<Rightarrow> exn + tfs_df \<Rightarrow> exn + (string \<rightharpoonup> tfs_df)" where
  "store_meas measurement key r = (case r of Inl e \<Rightarrow> Inl e | Inr t \<Rightarrow> Inr (measurement(key \<mapsto> t)))"

text \<open>The body of the loop of \<open>_get_measurment_data\<close> for one key, the branches in the order of the source.\<close>

definition load_key ::
  "name_constants \<Rightarrow> (string \<Rightarrow> exn + tfs_df) \<Rightarrow> string \<Rightarrow> string \<Rightarrow>
   (string \<rightharpoonup> tfs_df) \<Rightarrow> string \<Rightarrow> exn + (string \<rightharpoonup> tfs_df)" where
  "load_key C file_read meas_dir beta_file_name measurement key =
     (if prefix ''MU'' key then
        store_meas measurement key (read_meas file_read meas_dir (PHASE_NAME C @ [lower_char (last key)] @ EXT C))
      else if prefix ''D'' key then
        store_meas measurement key (read_meas file_read meas_dir (DISPERSION_NAME C @ [lower_char (last key)] @ EXT C))
      else if key = ''NDX'' then
        store_meas measurement key (read_meas file_read meas_dir (NORM_DISP_NAME C @ [lower_char (last key)] @ EXT C))
      else if key \<in> set [''F1001R'', ''F1001I'', ''F1010R'', ''F1010I''] then
        Inr measurement
      else if key = ''Q'' then
        store_meas measurement key (tune_table C file_read meas_dir)
      else if prefix ''BET'' key then
        store_meas measurement key (read_meas file_read meas_dir (beta_file_name @ [lower_char (last key)] @ EXT C))
      else Inr measurement)"

fun load_keys ::
  "name_constants \<Rightarrow> (string \<Rightarrow> exn + tfs_df) \<Rightarrow> string \<Rightarrow> string \<Rightarrow>
   string list \<Rightarrow> (string \<rightharpoonup> tfs_df) \<Rightarrow> exn + (string \<rightharpoonup> tfs_df)" where
  "load_keys C file_read meas_dir beta_file_name [] measurement = Inr measurement"
| "load_keys C file_read meas_dir beta_file_name (key # keys) measurement =
     (case load_key C file_read meas_dir beta_file_name measurement key of
        Inl e \<Rightarrow> Inl e
      | Inr m \<Rightarrow> load_keys C file_read meas_dir beta_file_name keys m)"

definition get_measurment_data ::
  "name_constants \<Rightarrow> (string \<Rightarrow> exn + tfs_df) \<Rightarrow> string list \<Rightarrow> string \<Rightarrow> string \<Rightarrow>
   (string \<rightharpoonup> real) \<Rightarrow> exn + (string list \<times> (string \<rightharpoonup> tfs_df))" where
  "get_measurment_data C file_read keys meas_dir beta_file_name w_dict =
     (case filter_keys w_dict keys of
        Inl e \<Rightarrow> Inl e
      | Inr filtered_keys \<Rightarrow>
          (case load_keys C file_read meas_dir beta_file_name filtered_keys Map.empty of
             Inl e \<Rightarrow> Inl e
           | Inr measurement \<Rightarrow> Inr (filtered_keys, measurement)))"

section \<open>correction/handler.py: the iteration loop\<close>

text \<open>
  The Delta Vector is a frame with the index of corrector names and the single column
  \<open>DELTA\<close>; the combined response matrix is a frame whose columns carry the corrector
  names. A written file is a parameter script (the pairs that \<open>writeparams\<close> formats,
  one line each) or the knob table with its string headers.
\<close>

type_synonym delta_vec = "(string \<times> fnum) list"

type_synonym resp_mat = "(string \<times> real list) list"

datatype out_file = MadxScript delta_vec | KnobTable "string \<rightharpoonup> string" delta_vec

text \<open>The options of a correction run; \<open>solve_method\<close> is the option \<open>method\<close>.\<close>

record correction_opt =
  max_iter :: int
  min_corrector_strength :: real
  update_response :: bool
  solve_method :: string
  svd_cut :: "real option"
  n_correctors :: "nat option"
  output_dir :: string
  change_params_path :: string
  change_params_correct_path :: string
  knob_path :: string

text \<open>
  What the loop obtains from outside the module: the two solvers (numpy's \<open>pinv\<close> and
  scikit-learn's orthogonal matching pursuit, applied to the weighted response and the
  weighted difference), the response rebuilt at an iteration (the column of a corrector after
  \<open>create_response\<close>, \<open>filter_response_index\<close> and the concatenation over the keys, 0.0 where
  the corrector is absent), the model update of an iteration (the simulator run on the
  parameter file, the reload and \<open>append_model_to_measurement\<close>, giving the joined
  \<open>WEIGHT\<close> and \<open>DIFF\<close> columns or failing), and the clock read as \<open>ctime\<close> text.
\<close>

record externals =
  pinv_solve :: "real \<Rightarrow> resp_mat \<Rightarrow> real list \<Rightarrow> fnum list"
  omp_solve :: "nat \<Rightarrow> resp_mat \<Rightarrow> real list \<Rightarrow> fnum list"
  response_column :: "nat \<Rightarrow> string \<Rightarrow> real list"
  model_update :: "nat \<Rightarrow> (string \<rightharpoonup> out_file) \<Rightarrow> exn + (real list \<times> real list)"
  clock_ctime :: string

record corr_state =
  delta :: delta_vec
  resp_matrix :: resp_mat
  vars_list :: "string list"
  meas_columns :: "real list \<times> real list"
  files :: "string \<rightharpoonup> out_file"

text \<open>\<open>_join_responses\<close>: \<open>join_axes\<close> makes the columns exactly \<open>varslist\<close>, in its order.\<close>

definition join_responses :: "(string \<Rightarrow> real list) \<Rightarrow> string list \<Rightarrow> resp_mat" where
  "join_responses resp varslist = map (\<lambda>v. (v, resp v)) varslist"

definition pseudo_inverse ::
  "externals \<Rightarrow> correction_opt \<Rightarrow> resp_mat \<Rightarrow> real list \<Rightarrow> exn + fnum list" where
  "pseudo_inverse ext opt response_mat diff_vec =
     (case svd_cut opt of
        None \<Rightarrow> Inl ValueError
      | Some c \<Rightarrow> Inr (pinv_solve ext c response_mat diff_vec))"

definition orthogonal_matching_pursuit ::
  "externals \<Rightarrow> correction_opt \<Rightarrow> resp_mat \<Rightarrow> real list \<Rightarrow> exn + fnum list" where
  "orthogonal_matching_pursuit ext opt response_mat diff_vec =
     (case n_correctors opt of
        None \<Rightarrow> Inl ValueError
      | Some n \<Rightarrow> Inr (omp_solve ext n response_mat diff_vec))"

text \<open>\<open>_get_method_fun\<close>: a dictionary lookup, \<open>KeyError\<close> for another method name.\<close>

definition get_method_fun ::
  "externals \<Rightarrow> string \<Rightarrow> exn + (correction_opt \<Rightarrow> resp_mat \<Rightarrow> real list \<Rightarrow> exn + fnum list)" where
  "get_method_fun ext m =
     (if m = ''pinv'' then Inr (pseudo_inverse ext)
      else if m = ''omp'' then Inr (orthogonal_matching_pursuit ext)
      else Inl KeyError)"

text \<open>
  \<open>_calculate_delta\<close>: the response is scaled row by row and the difference element by
  element with the weights (both raise on a length mismatch); the solution is wrapped in a
  frame over \<open>vars_list\<close>, which raises when their lengths differ.
\<close>

definition calculate_delta :: "externals \<Rightarrow> correction_opt \<Rightarrow> corr_state \<Rightarrow> exn + delta_vec" where
  "calculate_delta ext opt s =
     (let weight_vector = fst (meas_columns s);
          diff_vector = snd (meas_columns s)
      in if list_all (\<lambda>c. length (snd c) = length weight_vector) (resp_matrix s)
            \<and> length diff_vector = length weight_vector
         then
           (let resp_weighted = map (\<lambda>c. (fst c, map2 (*) (snd c) weight_vector)) (resp_matrix s);
                diff_weighted = map2 (*) diff_vector weight_vector
            in case get_method_fun ext (solve_method opt) of
                 Inl e \<Rightarrow> Inl e
               | Inr f \<Rightarrow>
                  (case f opt resp_weighted diff_weighted of
                     Inl e \<Rightarrow> Inl e
                   | Inr d \<Rightarrow>
                       if length d = length (vars_list s) then Inr (zip (vars_list s) d)
                       else Inl ValueError))
         else Inl ValueError)"

text \<open>
  \<open>delta += increment\<close> on frames. The sum is aligned on the labels and then reindexed
  like the left operand, which is updated in place: the index of \<open>delta\<close> stays as it is, a
  label that the increment lacks gets NaN. With equal indexes the sum is positional; with
  different indexes pandas cannot align duplicated labels and raises.
\<close>

definition lookup_nan :: "delta_vec \<Rightarrow> string \<Rightarrow> fnum" where
  "lookup_nan d n = (case map_of d n of None \<Rightarrow> None | Some v \<Rightarrow> v)"

definition df_iadd :: "delta_vec \<Rightarrow> delta_vec \<Rightarrow> exn + delta_vec" where
  "df_iadd d inc =
     (if map fst d = map fst inc then Inr (map2 (\<lambda>a b. (fst a, fadd (snd a) (snd b))) d inc)
      else if distinct (map fst d) \<and> distinct (map fst inc)
        then Inr (map (\<lambda>a. (fst a, fadd (snd a) (lookup_nan inc (fst a)))) d)
      else Inl ValueError)"

text \<open>
  \<open>resp_matrix.loc[:, labels]\<close>: the columns with these labels, in the order of the
  labels; a label that is no column is reported as \<open>KeyError\<close>.
\<close>

definition loc_columns :: "resp_mat \<Rightarrow> string list \<Rightarrow> exn + resp_mat" where
  "loc_columns r labels =
     (if list_all (\<lambda>n. n \<in> fst ` set r) labels
      then Inr (map (\<lambda>n. (n, the (map_of r n))) labels)
      else Inl KeyError)"

text \<open>\<open>_filter_by_strength\<close>: the rows with \<open>|DELTA| > min_strength\<close> are kept; NaN compares false.\<close>

definition filter_by_strength ::
  "delta_vec \<Rightarrow> resp_mat \<Rightarrow> real \<Rightarrow> exn + (delta_vec \<times> resp_mat \<times> string list)" where
  "filter_by_strength d r min_strength =
     (let d' = filter (\<lambda>a. fgt (fabs (snd a)) min_strength) d
      in case loc_columns r (map fst d') of
           Inl e \<Rightarrow> Inl e
         | Inr r' \<Rightarrow> Inr (d', r', map fst d'))"

definition writeparams :: "string \<Rightarrow> delta_vec \<Rightarrow> (string \<rightharpoonup> out_file) \<Rightarrow> (string \<rightharpoonup> out_file)" where
  "writeparams path_to_file d fs = fs(path_to_file \<mapsto> MadxScript d)"

definition neg_delta :: "delta_vec \<Rightarrow> delta_vec" where
  "neg_delta d = map (\<lambda>a. (fst a, fneg (snd a))) d"

text \<open>\<open>write_knob\<close>: the negated \<open>DELTA\<close> column with the headers \<open>PATH\<close> and \<open>DATE\<close>.\<close>

definition write_knob :: "externals \<Rightarrow> string \<Rightarrow> delta_vec \<Rightarrow> (string \<rightharpoonup> out_file) \<Rightarrow> (string \<rightharpoonup> out_file)" where
  "write_knob ext knob_path_arg d fs =
     (let delta_out = neg_delta d;
          hdrs = [''PATH'' \<mapsto> dirname knob_path_arg, ''DATE'' \<mapsto> clock_ctime ext]
      in fs(knob_path_arg \<mapsto> KnobTable hdrs delta_out))"

text \<open>Lines 52 to 74: for an iteration after the first, the model and, on request, the response are renewed.\<close>

definition update_model_and_response ::
  "externals \<Rightarrow> correction_opt \<Rightarrow> nat \<Rightarrow> corr_state \<Rightarrow> exn + corr_state" where
  "update_model_and_response ext opt iteration s =
     (if iteration > 0 then
        (case model_update ext iteration (files s) of
           Inl e \<Rightarrow> Inl e
         | Inr m \<Rightarrow>
             (let s1 = s\<lparr>meas_columns := m\<rparr>
              in if update_response opt
                 then Inr (s1\<lparr>resp_matrix := join_responses (response_column ext iteration) (vars_list s1)\<rparr>)
                 else Inr s1))
      else Inr s)"

text \<open>Lines 77 and 78: the accumulated Delta Vector before the pruning.\<close>

definition accumulate :: "externals \<Rightarrow> correction_opt \<Rightarrow> corr_state \<Rightarrow> exn + delta_vec" where
  "accumulate ext opt s =
     (case calculate_delta ext opt s of
        Inl e \<Rightarrow> Inl e
      | Inr inc \<Rightarrow> df_iadd (delta s) inc)"

text \<open>Lines 79 to 84: the pruning and the two parameter files.\<close>

definition prune_and_persist :: "correction_opt \<Rightarrow> corr_state \<Rightarrow> delta_vec \<Rightarrow> exn + corr_state" where
  "prune_and_persist opt s acc =
     (case filter_by_strength acc (resp_matrix s) (min_corrector_strength opt) of
        Inl e \<Rightarrow> Inl e
      | Inr (d', r', v') \<Rightarrow>
          (let fs1 = writeparams (change_params_path opt) d' (files s);
               fs2 = writeparams (change_params_correct_path opt) (neg_delta d') fs1
           in Inr (s\<lparr>delta := d', resp_matrix := r', vars_list := v', files := fs2\<rparr>)))"

definition iteration_body ::
  "externals \<Rightarrow> correction_opt \<Rightarrow> nat \<Rightarrow> corr_state \<Rightarrow> exn + corr_state" where
  "iteration_body ext opt iteration s =
     (case update_model_and_response ext opt iteration s of
        Inl e \<Rightarrow> Inl e
      | Inr s1 \<Rightarrow>
          (case accumulate ext opt s1 of
             Inl e \<Rightarrow> Inl e
           | Inr acc \<Rightarrow> prune_and_persist opt s1 acc))"

fun run_iterations ::
  "externals \<Rightarrow> correction_opt \<Rightarrow> nat list \<Rightarrow> corr_state \<Rightarrow> exn + corr_state" where
  "run_iterations ext opt [] s = Inr s"
| "run_iterations ext opt (iteration # rest) s =
     (case iteration_body ext opt iteration s of
        Inl e \<Rightarrow> Inl e
      | Inr s' \<Rightarrow> run_iterations ext opt rest s')"

text \<open>
  The state before the loop (lines 45 and 46): the response joined over the variable
  list, the Delta Vector zero over the variable list.
\<close>

definition initial_state ::
  "string list \<Rightarrow> (string \<Rightarrow> real list) \<Rightarrow> real list \<times> real list \<Rightarrow> (string \<rightharpoonup> out_file) \<Rightarrow> corr_state" where
  "initial_state varlist resp0 meas0 fs0 =
     \<lparr>delta = map (\<lambda>v. (v, Some 0)) varlist,
      resp_matrix = join_responses resp0 varlist,
      vars_list = varlist,
      meas_columns = meas0,
      files = fs0\<rparr>"

text \<open>
  \<open>correct\<close> from the resolved variable list on (\<open>_get_varlist\<close> raises on an empty
  list): the loop over \<open>range(max_iter + 1)\<close>, then the knob file.
\<close>

definition correct ::
  "externals \<Rightarrow> correction_opt \<Rightarrow> string list \<Rightarrow> (string \<Rightarrow> real list) \<Rightarrow>
   real list \<times> real list \<Rightarrow> (string \<rightharpoonup> out_file) \<Rightarrow> exn + corr_state" where
  "correct ext opt varlist resp0 meas0 fs0 =
     (if varlist = [] then Inl ValueError
      else
        (case run_iterations ext opt [0..<nat (max_iter opt + 1)] (initial_state varlist resp0 meas0 fs0) of
           Inl e \<Rightarrow> Inl e
         | Inr s \<Rightarrow> Inr (s\<lparr>files := write_knob ext (knob_path opt) (delta s) (files s)\<rparr>)))"

section \<open>The knob file and the output directory\<close>

text \<open>
  A directory as \<open>os.path.dirname\<close> writes it: without trailing separators, a root that
  consists of separators only left as it is.
\<close>

definition dir_normal :: "string \<Rightarrow> string" where
  "dir_normal d = (if list_all (\<lambda>c. c = CHR ''/'') d then d else rstrip_sep d)"

text \<open>
  Modelled from the spec: the entry point that fills in \<open>opt.knob_path\<close> is not among the
  sources of the handler. The specification has the knob file among the files that a run
  writes into its output directory, with the header \<open>PATH\<close> recording that directory: the
  knob path is a file name joined to the configured output directory.
\<close>

definition knob_in_output_dir :: "correction_opt \<Rightarrow> string \<Rightarrow> bool" where
  "knob_in_output_dir opt name =
     (knob_path opt = path_join (output_dir opt) name \<and> CHR ''/'' \<notin> set name)"

section \<open>The invariant of the correction loop\<close>

text \<open>The Delta Vector, the variable list and the response columns carry the same names, without repetition.\<close>

definition loop_inv :: "corr_state \<Rightarrow> bool" where
  "loop_inv s =
     (map fst (delta s) = vars_list s \<and> map fst (resp_matrix s) = vars_list s \<and> distinct (vars_list s))"

section \<open>Concrete inputs: k-modulation\<close>

text \<open>Two magnet tables that differ in their polarity only, the constants, and the outcome of a minimisation.\<close>

definition magnet_plus :: magnet_df where
  "magnet_plus =
     \<lparr>headers = [''POLARITY'' \<mapsto> Some 1, ''LENGTH'' \<mapsto> Some 2, ''QX'' \<mapsto> Some (1 / 4)],
      rows = [\<lparr>K = Some 1, TUNEX = Some 0, TUNEY = Some 0, CLEANED_X = True, CLEANED_Y = False\<rparr>,
              \<lparr>K = Some 3, TUNEX = Some 0, TUNEY = Some 0, CLEANED_X = True, CLEANED_Y = True\<rparr>,
              \<lparr>K = Some 5, TUNEX = Some 0, TUNEY = Some 0, CLEANED_X = False, CLEANED_Y = True\<rparr>]\<rparr>"

definition magnet_minus :: magnet_df where
  "magnet_minus = magnet_plus\<lparr>headers := (headers magnet_plus)(''POLARITY'' \<mapsto> Some (- 1))\<rparr>"

definition kconst :: kmod_constants where
  "kconst = \<lparr>k_col = ''K'', tune_col = (\<lambda>p. ''Q'' @ p)\<rparr>"

text \<open>
  A minimiser outcome: \<open>(1, 2)\<close> on every sign row except the row that perturbs the
  first parameter downwards (row 2 of the sign matrix), where it is \<open>(3, 5)\<close>.
\<close>

definition fit_minus_only :: "magnet_df \<Rightarrow> magnet_df \<Rightarrow> string \<Rightarrow> real list \<Rightarrow> real \<times> real" where
  "fit_minus_only foc_df def_df plane s = (if hd s = - 1 then (3, 5) else (1, 2))"

section \<open>Concrete inputs: global correction\<close>

text \<open>
  Two correctors \<open>a\<close> and \<open>b\<close> and one measured row with weight 1 and difference 1. The
  solver stand-in returns, for each column it is given, the first entry of the weighted
  column. The initial response of \<open>b\<close> is 0; the response rebuilt in later iterations
  would give \<open>b\<close> the increment 5.
\<close>

definition ext_demo :: externals where
  "ext_demo =
     \<lparr>pinv_solve = (\<lambda>c resp diff. map (\<lambda>col. Some (hd (snd col))) resp),
      omp_solve = (\<lambda>n resp diff. []),
      response_column = (\<lambda>it v. if v = ''b'' then [5] else [1]),
      model_update = (\<lambda>it fs. Inr ([1], [1])),
      clock_ctime = ''Wed Nov  4 12:00:00 2026''\<rparr>"

definition opt_demo :: correction_opt where
  "opt_demo =
     \<lparr>max_iter = 1, min_corrector_strength = 0, update_response = True,
      solve_method = ''pinv'', svd_cut = Some (1 / 100), n_correctors = None,
      output_dir = ''out'', change_params_path = ''out/cp.madx'',
      change_params_correct_path = ''out/cpc.madx'', knob_path = ''out/cp.tfs''\<rparr>"

definition resp0_demo :: "string \<Rightarrow> real list" where
  "resp0_demo v = (if v = ''b'' then [0] else [1])"

definition init_demo :: corr_state where
  "init_demo = initial_state [''a'', ''b''] resp0_demo ([1], [1]) Map.empty"

definition mid_demo :: corr_state where
  "mid_demo =
     \<lparr>delta = [(''a'', Some 1)], resp_matrix = [(''a'', [1])], vars_list = [''a''],
      meas_columns = ([1], [1]),
      files = [''out/cp.madx'' \<mapsto> MadxScript [(''a'', Some 1)],
               ''out/cpc.madx'' \<mapsto> MadxScript [(''a'', Some (- 1))]]\<rparr>"

definition final_demo :: corr_state where
  "final_demo =
     mid_demo\<lparr>delta := [(''a'', Some 2)],
              files := (files mid_demo)(''out/cp.madx'' \<mapsto> MadxScript [(''a'', Some 2)],
                                        ''out/cpc.madx'' \<mapsto> MadxScript [(''a'', Some (- 2))])\<rparr>"

definition knob_demo :: out_file where
  "knob_demo =
     KnobTable [''PATH'' \<mapsto> ''out'', ''DATE'' \<mapsto> ''Wed Nov  4 12:00:00 2026'']
               [(''a'', Some (- 2))]"

text \<open>A measurement directory with the horizontal phase file only, and the file names of the package.\<close>

definition consts_demo :: name_constants where
  "consts_demo =
     \<lparr>PHASE_NAME = ''phase_'', DISPERSION_NAME = ''dispersion_'',
      NORM_DISP_NAME = ''normalised_dispersion_'', EXT = ''.tfs'',
      VALUE = ''VALUE'', ERROR = ''ERROR''\<rparr>"

definition phase_x_demo :: tfs_df where
  "phase_x_demo =
     \<lparr>tfs_headers = [''Q1'' \<mapsto> Some (6231 / 100), ''Q2'' \<mapsto> Some (6032 / 100)],
      tfs_index = [''BPM1''], tfs_columns = [''S'' \<mapsto> [Some 0]]\<rparr>"

definition read_demo :: "string \<Rightarrow> exn + tfs_df" where
  "read_demo p = (if p = ''meas/phase_x.tfs'' then Inr phase_x_demo else Inl IOError)"

definition tune_table_demo :: tfs_df where
  "tune_table_demo =
     \<lparr>tfs_headers = Map.empty, tfs_index = [''Q1'', ''Q2''],
      tfs_columns = [''VALUE'' \<mapsto> [Some (31 / 100), Some (32 / 100)],
                     ''ERROR'' \<mapsto> [Some (1 / 1000), Some (1 / 1000)]]\<rparr>"

section \<open>optics\_measurements/beta\_from\_phase.py: systematic errors\<close>

text \<open>
  A row of \<open>twiss_full\<close>: the index \<open>NAME\<close>, the column \<open>K1L\<close> and the columns that
  \<open>_assign_uncertainties\<close> adds. The other columns of the element table (\<open>S\<close>, \<open>K2L\<close>, the
  phase and the beta function) are not touched by the function and are left out.
\<close>

record element =
  el_name :: string
  K1L :: real
  UNC :: bool
  dK1 :: real
  KdS :: real
  mKdS :: real
  dX :: real
  BPMdS :: real

text \<open>A row of the error-definition file.\<close>

record errdef =
  PATTERN :: string
  err_dK1 :: real
  err_dX :: real
  err_dS :: real
  MAINFIELD :: string

text \<open>\<open>str.split(sep)\<close> for a separator of one character.\<close>

fun split_on :: "char \<Rightarrow> string \<Rightarrow> string list" where
  "split_on c [] = [[]]"
| "split_on c (x # xs) =
     (if x = c then [] # split_on c xs
      else (case split_on c xs of [] \<Rightarrow> [[x]] | w # ws \<Rightarrow> (x # w) # ws))"

text \<open>
  The rows an error definition applies to. A pattern \<open>key:NAME\<close> selects by the label
  \<open>patt.split(":")[1]\<close>, and reading \<open>K1L\<close> at a label that is not in the index raises
  \<open>KeyError\<close>. Any other pattern is compiled as a regular expression and searched in the
  names; \<open>re_compile\<close> is the parameter that gives the search predicate of a pattern, or
  the error of the compilation.
\<close>

definition row_selection ::
  "(string \<Rightarrow> exn + (string \<Rightarrow> bool)) \<Rightarrow> string \<Rightarrow> element list \<Rightarrow> exn + bool list" where
  "row_selection re_compile patt tw =
     (if prefix ''key:'' patt then
        (case split_on CHR '':'' patt of
           a # label # rest \<Rightarrow>
             if label \<in> el_name ` set tw then Inr (map (\<lambda>r. el_name r = label) tw)
             else Inl KeyError
         | _ \<Rightarrow> Inl IndexError)
      else
        (case re_compile patt of
           Inl e \<Rightarrow> Inl e
         | Inr search \<Rightarrow> Inr (map (\<lambda>r. search (el_name r)) tw)))"

text \<open>Lines 345 to 351 on one selected row: every column is assigned, none is added to.\<close>

definition apply_errdef :: "errdef \<Rightarrow> element \<Rightarrow> element" where
  "apply_errdef e r =
     (let r1 = r\<lparr>dK1 := (err_dK1 e * K1L r)\<^sup>2\<rparr>;
          r2 = r1\<lparr>dX := err_dX e * 2\<rparr>;
          r3 = (if MAINFIELD e = ''BPM'' then r2\<lparr>BPMdS := (err_dS e)\<^sup>2\<rparr>
                else r2\<lparr>KdS := (err_dS e * K1L r2)\<^sup>2\<rparr>)
      in r3\<lparr>UNC := True\<rparr>)"

fun assign_loop ::
  "(string \<Rightarrow> exn + (string \<Rightarrow> bool)) \<Rightarrow> errdef list \<Rightarrow> element list \<Rightarrow> exn + element list" where
  "assign_loop re_compile [] tw = Inr tw"
| "assign_loop re_compile (e # es) tw =
     (case row_selection re_compile (PATTERN e) tw of
        Inl x \<Rightarrow> Inl x
      | Inr sel \<Rightarrow>
          assign_loop re_compile es (map2 (\<lambda>s r. if s then apply_errdef e r else r) sel tw))"

text \<open>\<open>np.roll(xs, 1)\<close> and \<open>np.roll(xs, -1)\<close>.\<close>

definition roll_right :: "'a list \<Rightarrow> 'a list" where
  "roll_right xs = (if xs = [] then [] else last xs # butlast xs)"

definition roll_left :: "'a list \<Rightarrow> 'a list" where
  "roll_left xs = (if xs = [] then [] else tl xs @ [hd xs])"

text \<open>\<open>_assign_uncertainties\<close> on the names and \<open>K1L\<close> values of the element table.\<close>

definition assign_uncertainties ::
  "(string \<Rightarrow> exn + (string \<Rightarrow> bool)) \<Rightarrow> (string \<times> real) list \<Rightarrow> errdef list \<Rightarrow> exn + element list" where
  "assign_uncertainties re_compile twiss_full errdefs =
     (let tw0 = map (\<lambda>nk. \<lparr>el_name = fst nk, K1L = snd nk, UNC = False, dK1 = 0, KdS = 0,
                            mKdS = 0, dX = 0, BPMdS = 0\<rparr>) twiss_full
      in case assign_loop re_compile errdefs tw0 of
           Inl x \<Rightarrow> Inl x
         | Inr tw1 \<Rightarrow>
             (let tw2 = map2 (\<lambda>r v. r\<lparr>mKdS := v\<rparr>) tw1 (roll_right (map KdS tw1));
                  tw3 = map2 (\<lambda>r v. r\<lparr>UNC := (abs v > 1 / 10 ^ 12 \<or> UNC r)\<rparr>) tw2
                             (roll_left (map dK1 tw2))
              in Inr (filter UNC tw3)))"

text \<open>
  The error definition that decides the \<open>dX\<close> of an element name: the last one, in the
  order of the file, whose pattern selects the name.
\<close>

definition selects :: "(string \<Rightarrow> exn + (string \<Rightarrow> bool)) \<Rightarrow> errdef \<Rightarrow> string \<Rightarrow> bool" where
  "selects re_compile e n =
     (if prefix ''key:'' (PATTERN e) then
        (case split_on CHR '':'' (PATTERN e) of a # label # rest \<Rightarrow> n = label | _ \<Rightarrow> False)
      else (case re_compile (PATTERN e) of Inl x \<Rightarrow> False | Inr search \<Rightarrow> search n))"

definition last_selecting ::
  "(string \<Rightarrow> exn + (string \<Rightarrow> bool)) \<Rightarrow> errdef list \<Rightarrow> string \<Rightarrow> errdef option" where
  "last_selecting re_compile errdefs n =
     (case filter (\<lambda>e. selects re_compile e n) (rev errdefs) of [] \<Rightarrow> None | e # es \<Rightarrow> Some e)"

section \<open>optics\_measurements/beta\_from\_phase.py: the N-BPM weighting\<close>

text \<open>Matrices are lists of rows. \<open>np.dot\<close>, \<open>np.diag\<close>, \<open>np.any\<close> and boolean-mask indexing.\<close>

definition mat_mul :: "real list list \<Rightarrow> real list list \<Rightarrow> real list list" where
  "mat_mul A B = map (\<lambda>row. map (\<lambda>col. sum_list (map2 (*) row col)) (transpose B)) A"

definition mat_vec :: "real list list \<Rightarrow> real list \<Rightarrow> real list" where
  "mat_vec A v = map (\<lambda>row. sum_list (map2 (*) row v)) A"

definition np_diag :: "real list \<Rightarrow> real list list" where
  "np_diag d = map (\<lambda>i. map (\<lambda>j. if i = j then d ! i else 0) [0..<length d]) [0..<length d]"

definition np_any :: "real list list \<Rightarrow> bool" where
  "np_any M = list_ex (list_ex (\<lambda>x. x \<noteq> 0)) M"

definition masked :: "bool list \<Rightarrow> 'a list \<Rightarrow> 'a list" where
  "masked msk xs = map snd (filter fst (zip msk xs))"

text \<open>Lines 187 to 190: the covariance matrix of the combinations from the lines \<open>mat_t\<close> and the variances \<open>diag\<close>.\<close>

definition covariance :: "real list list \<Rightarrow> real list \<Rightarrow> real list list" where
  "covariance mat_t diag =
     (let msk = map (\<lambda>d. d \<noteq> 0) diag;
          mat_diag = np_diag (masked msk diag);
          t = map (masked msk) mat_t
      in mat_mul t (mat_mul mat_diag (transpose t)))"

text \<open>
  \<open>_covariant_weighting\<close>. \<open>np.linalg.pinv(mat, rcond=RCOND)\<close> is the parameter \<open>pinv\<close>.
\<close>

definition covariant_weighting ::
  "(real list list \<Rightarrow> real list list) \<Rightarrow> real list list \<Rightarrow> real list \<Rightarrow> exn + (real \<times> real)" where
  "covariant_weighting pinv mat col =
     (let mat_inv = pinv mat;
          wb = map sum_list mat_inv;
          mat_inv_sum = sum_list wb
      in if mat_inv_sum = 0 then Inl ValueError
         else Inr (sum_list (map2 (*) wb col) / mat_inv_sum,
                   sqrt (sum_list (map2 (*) wb (mat_vec mat wb)) / mat_inv_sum\<^sup>2)))"

text \<open>
  What lines 143 to 186 of \<open>n_bpm_method\<close> assemble for one probed BPM from the phases
  and the model: the estimates of the combinations, their lines and the variances.
\<close>

record bpm_input =
  probed_bpm_name :: string
  betas :: "real list"
  alphas :: "real list"
  mat_t_beta :: "real list list"
  mat_t_alpha :: "real list list"
  diag :: "real list"

text \<open>A row of the result: the name, \<open>BET\<close>, \<open>ERRBET\<close>, \<open>ALF\<close>, \<open>ERRALF\<close> and \<open>NCOMB\<close>.\<close>

record beta_row =
  NAME :: string
  BET :: real
  ERRBET :: real
  ALF :: real
  ERRALF :: real
  NCOMB :: nat

text \<open>
  The loop of \<open>n_bpm_method\<close> from line 187 on. \<open>betas_alfas\<close> and \<open>n_comb\<close> start as
  zeros; \<open>continue\<close> leaves the zeros of the BPM in place. An exception of
  \<open>_covariant_weighting\<close> is not caught.
\<close>

fun n_bpm_loop :: "(real list list \<Rightarrow> real list list) \<Rightarrow> bpm_input list \<Rightarrow> exn + beta_row list" where
  "n_bpm_loop pinv [] = Inr []"
| "n_bpm_loop pinv (b # bs) =
     (let mat_v_beta = covariance (mat_t_beta b) (diag b);
          mat_v_alpha = covariance (mat_t_alpha b) (diag b)
      in if np_any mat_v_beta \<and> np_any mat_v_alpha then
           (case covariant_weighting pinv mat_v_beta (betas b) of
              Inl e \<Rightarrow> Inl e
            | Inr beta_res \<Rightarrow>
               (case covariant_weighting pinv mat_v_alpha (alphas b) of
                  Inl e \<Rightarrow> Inl e
                | Inr alfa_res \<Rightarrow>
                   (case n_bpm_loop pinv bs of
                      Inl e \<Rightarrow> Inl e
                    | Inr rest \<Rightarrow>
                        Inr (\<lparr>NAME = probed_bpm_name b, BET = fst beta_res, ERRBET = snd beta_res,
                              ALF = fst alfa_res, ERRALF = snd alfa_res,
                              NCOMB = length (betas b)\<rparr> # rest))))
         else
           (case n_bpm_loop pinv bs of
              Inl e \<Rightarrow> Inl e
            | Inr rest \<Rightarrow>
                Inr (\<lparr>NAME = probed_bpm_name b, BET = 0, ERRBET = 0, ALF = 0, ERRALF = 0,
                      NCOMB = 0\<rparr> # rest)))"

definition n_bpm_method :: "(real list list \<Rightarrow> real list list) \<Rightarrow> bpm_input list \<Rightarrow> exn + beta_row list" where
  "n_bpm_method pinv inputs =
     (case n_bpm_loop pinv inputs of
        Inl e \<Rightarrow> Inl e
      | Inr beta_df \<Rightarrow> Inr (filter (\<lambda>r. NCOMB r > 0) beta_df))"

text \<open>The four conditions that determine the Moore-Penrose pseudo-inverse \<open>X\<close> of a real matrix \<open>A\<close>.\<close>

definition moore_penrose :: "real list list \<Rightarrow> real list list \<Rightarrow> bool" where
  "moore_penrose A X =
     (mat_mul A (mat_mul X A) = A \<and> mat_mul X (mat_mul A X) = X
      \<and> transpose (mat_mul A X) = mat_mul A X \<and> transpose (mat_mul X A) = mat_mul X A)"

section \<open>optics\_measurements/beta\_from\_phase.py: the 3-BPM method and the phase matrices\<close>

text \<open>
  The phase matrices live in array buffers. The store maps the address of a buffer to its
  content; the phase dictionary holds, for each of its frames, the address of the buffer of
  the frame. \<open>frame.values\<close> of a frame of one float type is that buffer itself, not a copy,
  so a function that receives \<open>phase["MEAS"].values\<close> receives the address.
\<close>

type_synonym array_store = "nat \<Rightarrow> real list list"

record phase_dict =
  MEAS :: nat
  MODEL :: nat
  ERRMEAS :: nat

text \<open>The start of a slice \<open>a[k:]\<close> on an axis of length \<open>n\<close>: a negative \<open>k\<close> counts from the end.\<close>

definition slice_start :: "nat \<Rightarrow> int \<Rightarrow> nat" where
  "slice_start n k = (if k < 0 then nat (max 0 (int n + k)) else min n (nat k))"

text \<open>\<open>M[r0:r1, c0:c1] += t\<close>, in place.\<close>

definition add_block :: "nat \<Rightarrow> nat \<Rightarrow> nat \<Rightarrow> nat \<Rightarrow> real \<Rightarrow> real list list \<Rightarrow> real list list" where
  "add_block r0 r1 c0 c1 t M =
     map (\<lambda>ir. map (\<lambda>jx. if r0 \<le> fst ir \<and> fst ir < r1 \<and> c0 \<le> fst jx \<and> fst jx < c1
                          then snd jx + t else snd jx)
                    (enumerate 0 (snd ir)))
         (enumerate 0 M)"

text \<open>\<open>scipy.linalg.circulant(c)\<close>: the entry at \<open>(i, j)\<close> is \<open>c[(i - j) mod n]\<close>.\<close>

definition circulant :: "nat list \<Rightarrow> nat list list" where
  "circulant c =
     map (\<lambda>i. map (\<lambda>j. c ! nat ((int i - int j) mod int (length c))) [0..<length c]) [0..<length c]"

text \<open>\<open>np.roll(rows, shift, axis=0)\<close> for a shift that is not negative.\<close>

definition np_roll :: "nat \<Rightarrow> 'a list \<Rightarrow> 'a list" where
  "np_roll shift xs = (if xs = [] then [] else rotate (length xs - shift mod length xs) xs)"

text \<open>
  Lines 478 and 479 of \<open>_tilt_slice_matrix\<close>:
  \<open>matrix[shape[0] - slice_shift:, :slice_shift] += tune\<close> and
  \<open>matrix[:slice_shift, shape[1] - slice_shift:] -= tune\<close>.
\<close>

definition corner_update :: "nat \<Rightarrow> real \<Rightarrow> real list list \<Rightarrow> real list list" where
  "corner_update slice_shift tune matrix =
     (let n0 = length matrix;
          n1 = (if matrix = [] then 0 else length (hd matrix));
          m1 = add_block (slice_start n0 (int n0 - int slice_shift)) n0 0 (min slice_shift n1) tune matrix
      in add_block 0 (min slice_shift n0) (slice_start n1 (int n1 - int slice_shift)) n1 (- tune) m1)"

text \<open>
  \<open>_tilt_slice_matrix\<close> on the buffer at \<open>addr\<close>. The two corner blocks are updated in the
  buffer; the tilted and sliced matrix is a new array, indexed as
  \<open>matrix[arange(n), circulant(invrange)[invrange]]\<close>, rolled and cut. The index arrays are
  built from \<open>shape[0]\<close>, so a matrix with fewer columns than rows raises \<open>IndexError\<close>,
  after the updates.
\<close>

definition tilt_slice_matrix ::
  "array_store \<Rightarrow> nat \<Rightarrow> nat \<Rightarrow> nat \<Rightarrow> real \<Rightarrow> array_store \<times> (exn + real list list)" where
  "tilt_slice_matrix st addr slice_shift slice_width tune =
     (let n0 = length (st addr);
          n1 = (if st addr = [] then 0 else length (hd (st addr)));
          invrange = map (\<lambda>k. n0 - 1 - k) [0..<n0];
          matrix = corner_update slice_shift tune (st addr);
          st' = st(addr := matrix);
          cols = map (\<lambda>k. circulant invrange ! k) invrange
      in if n1 < n0 then (st', Inl IndexError)
         else (st', Inr (take slice_width (np_roll slice_shift
                  (map (\<lambda>ci. map (\<lambda>jc. matrix ! fst jc ! snd jc) (enumerate 0 ci)) cols)))))"

definition scale :: "real \<Rightarrow> real list list \<Rightarrow> real list list" where
  "scale c M = map (map (\<lambda>x. x * c)) M"

text \<open>
  Lines 426 to 430 of \<open>three_bpm_method\<close>: the three tilted matrices, times \<open>TWOPI\<close>. The
  rest of the function computes the columns of \<open>beta_df\<close> from these three arrays and the
  model columns and does not touch the phase matrices.
\<close>

definition three_bpm_method ::
  "array_store \<Rightarrow> phase_dict \<Rightarrow> real \<Rightarrow> real \<Rightarrow>
   array_store \<times> (exn + (real list list \<times> real list list \<times> real list list))" where
  "three_bpm_method st phase tune mdltune =
     (case tilt_slice_matrix st (MEAS phase) 2 5 tune of
        (st1, Inl e) \<Rightarrow> (st1, Inl e)
      | (st1, Inr tilted_meas) \<Rightarrow>
         (case tilt_slice_matrix st1 (MODEL phase) 2 5 mdltune of
            (st2, Inl e) \<Rightarrow> (st2, Inl e)
          | (st2, Inr tilted_model) \<Rightarrow>
             (case tilt_slice_matrix st2 (ERRMEAS phase) 2 5 mdltune of
                (st3, Inl e) \<Rightarrow> (st3, Inl e)
              | (st3, Inr tilted_errmeas) \<Rightarrow>
                  (st3, Inr (scale (2 * pi) tilted_meas, scale (2 * pi) tilted_model,
                             scale (2 * pi) tilted_errmeas)))))"

section \<open>Concrete inputs: beta from phase\<close>

text \<open>One element and two error definitions that both select it by its label.\<close>

definition no_regex :: "string \<Rightarrow> exn + (string \<Rightarrow> bool)" where
  "no_regex patt = Inl ReError"

definition errdefs_overlap :: "errdef list" where
  "errdefs_overlap =
     [\<lparr>PATTERN = ''key:Q1'', err_dK1 = 0, err_dX = 1, err_dS = 0, MAINFIELD = ''QUAD''\<rparr>,
      \<lparr>PATTERN = ''key:Q1'', err_dK1 = 0, err_dX = 3, err_dS = 0, MAINFIELD = ''QUAD''\<rparr>]"

text \<open>
  Two probed BPMs. The first has one combination with variance 1. The second has two
  combinations whose lines are opposite, so its covariance matrix is singular and not zero.
\<close>

definition bpm_good :: bpm_input where
  "bpm_good =
     \<lparr>probed_bpm_name = ''BPM1'', betas = [100], alphas = [1],
      mat_t_beta = [[1]], mat_t_alpha = [[1]], diag = [1]\<rparr>"

definition bpm_singular :: bpm_input where
  "bpm_singular =
     \<lparr>probed_bpm_name = ''BPM2'', betas = [100, 120], alphas = [1, 2],
      mat_t_beta = [[1], [- 1]], mat_t_alpha = [[1], [- 1]], diag = [1]\<rparr>"

definition pinv_demo :: "real list list \<Rightarrow> real list list" where
  "pinv_demo m =
     (if m = [[1, - 1], [- 1, 1]] then [[1 / 4, - 1 / 4], [- 1 / 4, 1 / 4]] else m)"

text \<open>Three phase matrices of four BPMs, all zero, in the buffers 10, 11 and 12.\<close>

definition zeros4 :: "real list list" where
  "zeros4 = [[0, 0, 0, 0], [0, 0, 0, 0], [0, 0, 0, 0], [0, 0, 0, 0]]"

definition store_demo :: array_store where
  "store_demo a = zeros4"

definition phase_demo :: phase_dict where
  "phase_demo = \<lparr>MEAS = 10, MODEL = 11, ERRMEAS = 12\<rparr>"

section \<open>The effect of the error definitions on one row\<close>

text \<open>The error definitions applied in their order to a row, each where its pattern selects the name of the row.\<close>

definition row_final :: "(string \<Rightarrow> exn + (string \<Rightarrow> bool)) \<Rightarrow> errdef list \<Rightarrow> element \<Rightarrow> element" where
  "row_final re_compile es r =
     foldl (\<lambda>r e. if selects re_compile e (el_name r) then apply_errdef e r else r) r es"

chapter \<open>Properties\<close>

section \<open>k-modulation: the average K header\<close>

lemma calc_k_single_write:
  "calc_k C df = set_header (k_col C) (np_average (cleaned_values ''Y'' K df)) df"
  by (simp add: calc_k_def set_header_def cleaned_values_def Let_def)

lemma calc_k_rows: "rows (calc_k C df) = rows df"
  by (simp add: calc_k_def set_header_def Let_def)

lemma calc_k_other_header: "k \<noteq> k_col C \<Longrightarrow> headers (calc_k C df) k = headers df k"
  by (simp add: calc_k_def set_header_def Let_def)

text \<open>
  C10. \<open>calc_k\<close> assigns the header \<open>get_k_col()\<close> twice, first the average of K over the
  rows cleaned in X, then the average over the rows cleaned in Y. The table it returns is the
  input with that one header holding the Y average: the X average is lost. The fit input
  built afterwards, for either plane, subtracts the Y average from the K values of the plane.
\<close>

theorem calc_k_keeps_only_y_average:
  assumes "headers df ''POLARITY'' = Some pol" and "headers df ''LENGTH'' = Some len"
    and "k_col C \<noteq> ''POLARITY''" and "k_col C \<noteq> ''LENGTH''"
    and "headers (calc_k C df) (tune_col C plane) = Some q"
  shows "calc_k C df = set_header (k_col C) (np_average (cleaned_values ''Y'' K df)) df
    \<and> getitem (headers (calc_k C df)) (k_col C) = Inr (np_average (cleaned_values ''Y'' K df))
    \<and> return_fit_input C (calc_k C df) plane =
           Inr (map (\<lambda>k. fmul (fmul (if plane = ''X'' then pol else fmul (Some (- 1)) pol)
                                     (fsub (Some k) (np_average (cleaned_values ''Y'' K df)))) len)
                    (cleaned_values plane K df),
                map (\<lambda>k. q) (cleaned_values plane K df))"
proof -
  have a: "calc_k C df = set_header (k_col C) (np_average (cleaned_values ''Y'' K df)) df"
    by (rule calc_k_single_write)
  have b: "getitem (headers (calc_k C df)) (k_col C) = Inr (np_average (cleaned_values ''Y'' K df))"
    by (simp add: calc_k_single_write set_header_def getitem_def)
  have p: "headers (calc_k C df) ''POLARITY'' = Some pol"
    using assms(1,3) by (simp add: calc_k_other_header)
  have l: "headers (calc_k C df) ''LENGTH'' = Some len"
    using assms(2,4) by (simp add: calc_k_other_header)
  have k: "headers (calc_k C df) (k_col C) = Some (np_average (cleaned_values ''Y'' K df))"
    by (simp add: calc_k_single_write set_header_def)
  have c: "cleaned_values plane K (calc_k C df) = cleaned_values plane K df"
    by (simp add: cleaned_values_def calc_k_rows)
  have d: "return_fit_input C (calc_k C df) plane =
           Inr (map (\<lambda>k. fmul (fmul (if plane = ''X'' then pol else fmul (Some (- 1)) pol)
                                     (fsub (Some k) (np_average (cleaned_values ''Y'' K df)))) len)
                    (cleaned_values plane K df),
                map (\<lambda>k. q) (cleaned_values plane K df))"
    using p l k c assms(5) by (simp add: return_fit_input_def getitem_def Let_def)
  from a b d show ?thesis by blast
qed

text \<open>
  On \<open>magnet_plus\<close> the X selection averages to 2 and the Y selection to 4; the header
  holds 4 and the fit input of the X plane is \<open>1 * (K - 4) * 2\<close> over the K values 1 and 3.
\<close>

theorem calc_k_keeps_only_y_average_witness:
  "np_average (cleaned_values ''X'' K magnet_plus) = Some 2
   \<and> np_average (cleaned_values ''Y'' K magnet_plus) = Some 4
   \<and> getitem (headers (calc_k kconst magnet_plus)) (k_col kconst) = Inr (Some 4)
   \<and> return_fit_input kconst (calc_k kconst magnet_plus) ''X''
       = Inr ([Some (- 6), Some (- 2)], [Some (1 / 4), Some (1 / 4)])"
proof -
  have h1: "headers magnet_plus ''POLARITY'' = Some (Some 1)" by (simp add: magnet_plus_def)
  have h2: "headers magnet_plus ''LENGTH'' = Some (Some 2)" by (simp add: magnet_plus_def)
  have h3: "k_col kconst \<noteq> ''POLARITY''" by (simp add: kconst_def)
  have h4: "k_col kconst \<noteq> ''LENGTH''" by (simp add: kconst_def)
  have h5: "headers (calc_k kconst magnet_plus) (tune_col kconst ''X'') = Some (Some (1 / 4))"
    by (simp add: calc_k_def set_header_def Let_def kconst_def magnet_plus_def)
  have x: "cleaned_values ''X'' K magnet_plus = [1, 3]"
    by (simp add: magnet_plus_def cleaned_values_def cleaned_def dropna_def)
  have y: "cleaned_values ''Y'' K magnet_plus = [3, 5]"
    by (simp add: magnet_plus_def cleaned_values_def cleaned_def dropna_def)
  note t = calc_k_keeps_only_y_average [OF h1 h2 h3 h4 h5]
  show ?thesis
    using t [THEN conjunct2] by (simp add: x y np_average_def fmul_def fsub_def fop2_def)
qed

section \<open>k-modulation: the magnet roles and the error envelope\<close>

lemma length_return_sign_for_err: "length (return_sign_for_err n) = 2 * n + 1"
  by (simp add: return_sign_for_err_def)

text \<open>
  C5. Both magnets have the polarity +1, an unrecognised combination for the plane X.
  \<open>return_df\<close> raises nothing: it returns \<open>None\<close>. \<open>get_beta_waist\<close> then fails on
  unpacking that value, with a \<open>TypeError\<close>, which is not an error of the kind
  \<open>InvalidInput\<close>.
\<close>

theorem return_df_unrecognised_polarity:
  "return_df magnet_plus magnet_plus ''X'' = Inr None
   \<and> get_beta_waist fit magnet_plus magnet_plus ''X'' = Inl TypeError
   \<and> \<not> InvalidInput TypeError"
  by (simp add: get_beta_waist_def return_df_def py_if_def py_and_def polarity_is_def
      getitem_def magnet_plus_def InvalidInput_def)

text \<open>
  The maximum in the error expression is taken of one value with itself: the reported
  error is the root of the sum of squares of the deviations of the rows 1, 3, 5, ... alone.
\<close>

lemma envelope_err_plus_rows:
  "envelope_err col = sqrt (\<Sum>v\<leftarrow>slice_1_2 col. (v - hd col)\<^sup>2)"
  by (simp add: envelope_err_def)

text \<open>
  C3. With the minimiser outcome \<open>fit_minus_only\<close> the result of row 2, the downward
  perturbation of the first pair, is \<open>(3, 5)\<close> and the nominal result of row 0 is \<open>(1, 2)\<close>:
  the deviations are 2 and 3. The errors that \<open>get_beta_waist\<close> reports are both 0,
  because both arguments of the maximum read the rows 1, 3, 5, ... only.
\<close>

theorem get_beta_waist_ignores_minus_rows:
  "get_beta_waist fit_minus_only magnet_plus magnet_minus ''X'' = Inr (1, 0, 2, 0)
   \<and> fit_minus_only magnet_plus magnet_minus ''X'' (return_sign_for_err 8 ! 2) = (3, 5)
   \<and> fit_minus_only magnet_plus magnet_minus ''X'' (return_sign_for_err 8 ! 0) = (1, 2)"
proof -
  have r: "return_df magnet_plus magnet_minus ''X'' = Inr (Some (magnet_plus, magnet_minus))"
    by (simp add: return_df_def py_if_def py_and_def polarity_is_def getitem_def
        magnet_plus_def magnet_minus_def)
  have s: "map (\<lambda>s. fit_minus_only magnet_plus magnet_minus ''X'' s) (return_sign_for_err 8)
           = [(1, 2), (1, 2), (3, 5), (1, 2), (1, 2), (1, 2), (1, 2), (1, 2), (1, 2),
              (1, 2), (1, 2), (1, 2), (1, 2), (1, 2), (1, 2), (1, 2), (1, 2)]"
    by (simp add: return_sign_for_err_def fit_minus_only_def eye_row_def upt_rec)
  have s1: "map (fst \<circ> fit_minus_only magnet_plus magnet_minus ''X'') (return_sign_for_err 8)
           = [1, 1, 3, 1, 1, 1, 1, 1, 1, 1, 1, 1, 1, 1, 1, 1, 1]"
    using arg_cong [OF s, of "map fst"] by simp
  have s2: "map (snd \<circ> fit_minus_only magnet_plus magnet_minus ''X'') (return_sign_for_err 8)
           = [2, 2, 5, 2, 2, 2, 2, 2, 2, 2, 2, 2, 2, 2, 2, 2, 2]"
    using arg_cong [OF s, of "map snd"] by simp
  have a: "get_beta_waist fit_minus_only magnet_plus magnet_minus ''X'' = Inr (1, 0, 2, 0)"
    by (simp add: get_beta_waist_def r s s1 s2 envelope_err_def Let_def)
  have b: "return_sign_for_err 8 ! 2 = [- 1, 0, 0, 0, 0, 0, 0, 0]"
    by (simp add: return_sign_for_err_def eye_row_def upt_rec)
  have c: "return_sign_for_err 8 ! 0 = [0, 0, 0, 0, 0, 0, 0, 0]"
    by (simp add: return_sign_for_err_def eye_row_def upt_rec numeral_eq_Suc)
  show ?thesis using a by (simp add: b c fit_minus_only_def)
qed

section \<open>BBQ moving average: the guard\<close>

text \<open>
  C6. The number of surviving points is the number of true entries of the negated
  exclusion mask. When it is at most \<open>length\<close>, \<open>get_moving_average\<close> raises an error of the
  kind \<open>InvalidInput\<close>, whatever the series holds: the \<open>ValueError\<close> of the guard, once the
  paired options have passed their check. When more points survive, the guard raises
  nothing, and without a fine pass the function returns.
\<close>

theorem get_moving_average_guard:
  "(int (length (filter id (map Not (exclusion_mask data_series min_val max_val)))) \<le> len \<longrightarrow>
      (\<exists>e. get_moving_average mav data_series len min_val max_val fine_length fine_cut = Inl e
            \<and> InvalidInput e)
      \<and> (truthy fine_length = truthy fine_cut \<longrightarrow>
           get_moving_average mav data_series len min_val max_val fine_length fine_cut = Inl ValueError))
   \<and> (len < int (length (filter id (map Not (exclusion_mask data_series min_val max_val)))) \<longrightarrow>
        is_almost_empty_mask (map Not (exclusion_mask data_series min_val max_val)) len = Inr ()
        \<and> (fine_length = None \<and> \<not> truthy fine_cut \<longrightarrow>
             get_moving_average mav data_series len min_val max_val fine_length fine_cut
               = Inr (fst (mav data_series (exclusion_mask data_series min_val max_val) len),
                      snd (mav data_series (exclusion_mask data_series min_val max_val) len),
                      exclusion_mask data_series min_val max_val)))"
  by (auto simp: get_moving_average_def is_almost_empty_mask_def InvalidInput_def truthy_def
      Let_def split: prod.splits option.splits)

text \<open>
  A series of four points with one missing value and one value at the minimum: two points
  survive. With \<open>length = 2\<close> the guard raises, with \<open>length = 1\<close> it does not.
\<close>

theorem get_moving_average_guard_witness:
  "length (filter id (map Not (exclusion_mask [Some 1, None, Some 5, Some 7] (Some 1) None))) = 2
   \<and> get_moving_average (\<lambda>d m l. (d, d)) [Some 1, None, Some 5, Some 7] 2 (Some 1) None None None
       = Inl ValueError
   \<and> get_moving_average (\<lambda>d m l. (d, d)) [Some 1, None, Some 5, Some 7] 1 (Some 1) None None None
       = Inr ([Some 1, None, Some 5, Some 7], [Some 1, None, Some 5, Some 7],
              [True, True, False, False])"
proof -
  have m: "exclusion_mask [Some 1, None, Some 5, Some 7] (Some 1) None = [True, True, False, False]"
    by (simp add: exclusion_mask_def mask_or_def isna_def fle_def)
  have t: "truthy (None :: int option) = truthy (None :: real option)" by (simp add: truthy_def)
  have nt: "\<not> truthy (None :: real option)" by (simp add: truthy_def)
  note g2 = get_moving_average_guard [of "[Some 1, None, Some 5, Some 7]" "Some 1" None 2
      "\<lambda>d m l. (d, d)" None None]
  note g1 = get_moving_average_guard [of "[Some 1, None, Some 5, Some 7]" "Some 1" None 1
      "\<lambda>d m l. (d, d)" None None]
  show ?thesis using g1 g2 t nt by (simp add: m)
qed

section \<open>Global correction: pruning\<close>

lemma join_responses_labels: "map fst (join_responses r vs) = vs"
  by (induction vs) (simp_all add: join_responses_def)

lemma initial_inv: "distinct varlist \<Longrightarrow> loop_inv (initial_state varlist resp0 meas0 fs0)"
  by (simp add: loop_inv_def initial_state_def join_responses_labels comp_def)

lemma update_inv:
  assumes "update_model_and_response ext opt it s = Inr s1" and "loop_inv s"
  shows "loop_inv s1 \<and> vars_list s1 = vars_list s \<and> delta s1 = delta s"
  using assms
  by (auto simp: update_model_and_response_def loop_inv_def join_responses_labels Let_def
      split: if_splits sum.splits)

lemma map2_fst_index:
  "map fst xs = map fst ys \<Longrightarrow> map fst (map2 (\<lambda>a b. (fst a, f (snd a) (snd b))) xs ys) = map fst xs"
  by (induction xs ys rule: list_induct2') auto

text \<open>The in-place sum never changes the index of the Delta Vector.\<close>

lemma df_iadd_index: "df_iadd d inc = Inr acc \<Longrightarrow> map fst acc = map fst d"
proof (cases "map fst d = map fst inc")
  case True
  assume "df_iadd d inc = Inr acc"
  with True have "acc = map2 (\<lambda>a b. (fst a, fadd (snd a) (snd b))) d inc"
    by (simp add: df_iadd_def)
  with map2_fst_index[OF True, of fadd] show ?thesis by simp
next
  case False
  assume "df_iadd d inc = Inr acc"
  with False show ?thesis
    by (auto simp: df_iadd_def comp_def split: if_splits)
qed

lemma accumulate_index: "accumulate ext opt s = Inr acc \<Longrightarrow> map fst acc = map fst (delta s)"
  by (auto simp: accumulate_def split: sum.splits dest: df_iadd_index)

lemma loc_columns_labels: "loc_columns r labels = Inr r' \<Longrightarrow> map fst r' = labels"
  by (auto simp: loc_columns_def comp_def split: if_splits)

lemma filter_by_strength_result:
  assumes "filter_by_strength d r m = Inr (d', r', v')"
  shows "d' = filter (\<lambda>a. fgt (fabs (snd a)) m) d \<and> v' = map fst d' \<and> map fst r' = v'"
  using assms
  by (auto simp: filter_by_strength_def Let_def split: sum.splits dest: loc_columns_labels)

lemma pruned_name_gone:
  assumes "distinct (map fst d)" and "(n, v) \<in> set d" and "\<not> P (n, v)"
  shows "n \<notin> fst ` set (filter P d)"
proof
  assume "n \<in> fst ` set (filter P d)"
  then obtain w where w: "(n, w) \<in> set d" "P (n, w)" by auto
  from assms(1) assms(2) w(1) have "v = w" by (meson eq_key_imp_eq_value)
  with w(2) assms(3) show False by simp
qed

lemma prune_inv:
  assumes "prune_and_persist opt s acc = Inr s'" and "distinct (map fst acc)"
  shows "loop_inv s' \<and> delta s' = filter (\<lambda>a. fgt (fabs (snd a)) (min_corrector_strength opt)) acc"
  using assms
  by (auto simp: prune_and_persist_def loop_inv_def Let_def distinct_map_filter
      split: sum.splits prod.splits dest!: filter_by_strength_result)

lemma iteration_inv:
  assumes "iteration_body ext opt it s = Inr s'" and "loop_inv s"
  shows "loop_inv s' \<and> set (vars_list s') \<subseteq> set (vars_list s)"
proof -
  from assms(1) obtain s1 acc where
    u: "update_model_and_response ext opt it s = Inr s1" and
    a: "accumulate ext opt s1 = Inr acc" and
    p: "prune_and_persist opt s1 acc = Inr s'"
    by (auto simp: iteration_body_def split: sum.splits)
  from update_inv[OF u assms(2)] have i1: "loop_inv s1" "vars_list s1 = vars_list s" by auto
  from accumulate_index[OF a] i1 have ix: "map fst acc = vars_list s" by (simp add: loop_inv_def)
  with assms(2) have dd: "distinct (map fst acc)" by (simp add: loop_inv_def)
  from prune_inv[OF p dd] have l: "loop_inv s'"
    and d: "delta s' = filter (\<lambda>a. fgt (fabs (snd a)) (min_corrector_strength opt)) acc" by auto
  from l d have "vars_list s' = map fst (filter (\<lambda>a. fgt (fabs (snd a)) (min_corrector_strength opt)) acc)"
    by (simp add: loop_inv_def)
  then have "set (vars_list s') \<subseteq> set (map fst acc)" by auto
  with ix l show ?thesis by simp
qed

lemma run_iterations_inv:
  "run_iterations ext opt its s = Inr s' \<Longrightarrow> loop_inv s \<Longrightarrow>
   loop_inv s' \<and> set (vars_list s') \<subseteq> set (vars_list s)"
proof (induction its arbitrary: s)
  case Nil then show ?case by simp
next
  case (Cons it its)
  then obtain s1 where a: "iteration_body ext opt it s = Inr s1"
    and b: "run_iterations ext opt its s1 = Inr s'"
    by (auto split: sum.splits)
  from iteration_inv[OF a Cons.prems(2)] have "loop_inv s1" "set (vars_list s1) \<subseteq> set (vars_list s)"
    by auto
  with Cons.IH[OF b] show ?case by auto
qed

lemma run_iterations_append:
  "run_iterations ext opt (xs @ ys) s =
     (case run_iterations ext opt xs s of Inl e \<Rightarrow> Inl e | Inr s1 \<Rightarrow> run_iterations ext opt ys s1)"
  by (induction xs arbitrary: s) (auto split: sum.splits)

text \<open>
  C1. The run starts from distinct corrector names. In iteration \<open>i\<close> the accumulated
  Delta Vector \<open>acc\<close> (after the model update and the sum, before the pruning) holds the
  corrector \<open>n\<close> with a value whose magnitude does not exceed the threshold. Then in the
  state after any number \<open>j > i\<close> of iterations of the same run \<open>n\<close> is in none of the Delta
  Vector, the variable list and the response columns. The solvers, the rebuilt response and
  the model update are arbitrary: whatever increment they would yield for \<open>n\<close> later, the
  solver is only asked for the columns that are left.
\<close>

theorem pruning_is_permanent:
  assumes "distinct varlist"
    and "run_iterations ext opt [0..<i] (initial_state varlist resp0 meas0 fs0) = Inr si"
    and "update_model_and_response ext opt i si = Inr s1"
    and "accumulate ext opt s1 = Inr acc"
    and "(n, v) \<in> set acc" and "\<not> fgt (fabs v) (min_corrector_strength opt)"
    and "i < j"
    and "run_iterations ext opt [0..<j] (initial_state varlist resp0 meas0 fs0) = Inr sj"
  shows "n \<notin> fst ` set (delta sj) \<and> n \<notin> set (vars_list sj) \<and> n \<notin> fst ` set (resp_matrix sj)"
proof -
  have inv_i: "loop_inv si"
    using run_iterations_inv[OF assms(2) initial_inv[OF assms(1)]] by simp
  have split: "[0..<j] = [0..<i] @ [i] @ [Suc i..<j]"
    using assms(7)
    by (metis append_Cons append_Nil less_imp_le_nat upt_add_eq_append upt_conv_Cons le0
        le_add_diff_inverse)
  from assms(8) obtain s' where
    body: "iteration_body ext opt i si = Inr s'" and
    rest: "run_iterations ext opt [Suc i..<j] s' = Inr sj"
    unfolding split by (auto simp: run_iterations_append assms(2) split: sum.splits)
  from body assms(3,4) have p: "prune_and_persist opt s1 acc = Inr s'"
    by (simp add: iteration_body_def)
  from update_inv[OF assms(3) inv_i] have i1: "loop_inv s1" "vars_list s1 = vars_list si" by auto
  from accumulate_index[OF assms(4)] i1 have dd: "distinct (map fst acc)"
    by (simp add: loop_inv_def)
  from prune_inv[OF p dd] have l: "loop_inv s'"
    and d: "delta s' = filter (\<lambda>a. fgt (fabs (snd a)) (min_corrector_strength opt)) acc" by auto
  have "n \<notin> fst ` set (delta s')"
    unfolding d
    using pruned_name_gone[OF dd assms(5), of "\<lambda>a. fgt (fabs (snd a)) (min_corrector_strength opt)"]
      assms(6) by simp
  with l have gone: "n \<notin> set (vars_list s')" by (metis loop_inv_def set_map)
  from run_iterations_inv[OF rest l] have lj: "loop_inv sj"
    and sub: "set (vars_list sj) \<subseteq> set (vars_list s')" by auto
  from gone sub have g: "n \<notin> set (vars_list sj)" by auto
  from lj have "fst ` set (delta sj) = set (vars_list sj)"
    "fst ` set (resp_matrix sj) = set (vars_list sj)"
    by (metis loop_inv_def set_map)+
  with g show ?thesis by simp
qed

lemma accumulate_demo:
  "accumulate ext_demo (opt_demo\<lparr>output_dir := d\<rparr>) init_demo = Inr [(''a'', Some 1), (''b'', Some 0)]"
  by (simp add: accumulate_def calculate_delta_def init_demo_def initial_state_def
      join_responses_def resp0_demo_def ext_demo_def opt_demo_def get_method_fun_def
      pseudo_inverse_def df_iadd_def fadd_def fop2_def Let_def)

lemma iteration0_demo: "iteration_body ext_demo (opt_demo\<lparr>output_dir := d\<rparr>) 0 init_demo = Inr mid_demo"
  apply (simp add: iteration_body_def update_model_and_response_def accumulate_demo)
  apply (simp add: prune_and_persist_def filter_by_strength_def loc_columns_def fgt_def fabs_def
      writeparams_def neg_delta_def fneg_def Let_def init_demo_def initial_state_def
      join_responses_def resp0_demo_def opt_demo_def mid_demo_def)
  done

lemma iteration1_demo:
  "iteration_body ext_demo (opt_demo\<lparr>output_dir := d\<rparr>) (Suc 0) mid_demo = Inr final_demo"
  by (simp add: iteration_body_def update_model_and_response_def accumulate_def calculate_delta_def
      get_method_fun_def pseudo_inverse_def df_iadd_def fadd_def fop2_def
      prune_and_persist_def filter_by_strength_def loc_columns_def fgt_def fabs_def
      writeparams_def neg_delta_def fneg_def Let_def
      join_responses_def opt_demo_def ext_demo_def mid_demo_def final_demo_def)

lemma run_demo_dir:
  "run_iterations ext_demo (opt_demo\<lparr>output_dir := d\<rparr>) [0..<2] init_demo = Inr final_demo"
  by (simp add: upt_rec iteration0_demo iteration1_demo numeral_2_eq_2)

lemma opt_demo_dir: "opt_demo\<lparr>output_dir := ''out''\<rparr> = opt_demo"
  by (simp add: opt_demo_def)

lemma run_demo: "run_iterations ext_demo opt_demo [0..<2] init_demo = Inr final_demo"
  using run_demo_dir[of "''out''"] by (simp add: opt_demo_dir)

text \<open>
  In the run of two iterations, \<open>b\<close> accumulates 0 in iteration 0 and is pruned; the
  response rebuilt in iteration 1 holds the column \<open>[5]\<close> for \<open>b\<close>, but \<open>b\<close> is in none of the
  three structures after the run, and \<open>a\<close> has accumulated 2.
\<close>

theorem pruning_is_permanent_witness:
  "''b'' \<notin> fst ` set (delta final_demo) \<and> ''b'' \<notin> set (vars_list final_demo)
   \<and> ''b'' \<notin> fst ` set (resp_matrix final_demo)
   \<and> response_column ext_demo 1 ''b'' = [5]
   \<and> run_iterations ext_demo opt_demo [0..<2] init_demo = Inr final_demo
   \<and> delta final_demo = [(''a'', Some 2)]"
proof -
  have h1: "distinct [''a'', ''b'']" by simp
  have h2: "run_iterations ext_demo opt_demo [0..<0]
              (initial_state [''a'', ''b''] resp0_demo ([1], [1]) Map.empty) = Inr init_demo"
    by (simp add: init_demo_def)
  have h3: "update_model_and_response ext_demo opt_demo 0 init_demo = Inr init_demo"
    by (simp add: update_model_and_response_def)
  have h5: "(''b'', Some 0) \<in> set [(''a'', Some 1), (''b'', Some 0)]" by simp
  have h6: "\<not> fgt (fabs (Some 0)) (min_corrector_strength opt_demo)"
    by (simp add: fgt_def fabs_def opt_demo_def)
  have h7: "(0::nat) < 2" by simp
  have h8: "run_iterations ext_demo opt_demo [0..<2]
              (initial_state [''a'', ''b''] resp0_demo ([1], [1]) Map.empty) = Inr final_demo"
    using run_demo by (simp add: init_demo_def)
  have h4: "accumulate ext_demo opt_demo init_demo = Inr [(''a'', Some 1), (''b'', Some 0)]"
    using accumulate_demo[of "''out''"] by (simp add: opt_demo_dir)
  from pruning_is_permanent[OF h1 h2 h3 h4 h5 h6 h7 h8] run_demo
  show ?thesis by (simp add: ext_demo_def final_demo_def)
qed

section \<open>Global correction: the knob file\<close>









text \<open>
  With the output directory configured as \<open>out/\<close> the knob path is the same \<open>out/cp.tfs\<close>
  and the header names the same directory, written \<open>out\<close>.
\<close>

lemma knob_trailing_separator_demo:
  "correct ext_demo (opt_demo\<lparr>output_dir := ''out/''\<rparr>) [''a'', ''b''] resp0_demo ([1], [1]) Map.empty
     = Inr (final_demo\<lparr>files := (files final_demo)(''out/cp.tfs'' \<mapsto> knob_demo)\<rparr>)
   \<and> knob_in_output_dir (opt_demo\<lparr>output_dir := ''out/''\<rparr>) ''cp.tfs''
   \<and> dir_normal ''out/'' = ''out''"
  using run_demo_dir[of "''out/''"]
  by (simp add: correct_def init_demo_def opt_demo_def write_knob_def neg_delta_def fneg_def
      dirname_def rstrip_sep_def ext_demo_def final_demo_def path_join_def suffix_def Let_def
      knob_demo_def knob_in_output_dir_def dir_normal_def)

section \<open>Global correction: the measurement\<close>

lemma filter_keys_set:
  "filter_keys w ks = Inr fk \<Longrightarrow> k \<in> set fk \<Longrightarrow> k \<in> set ks \<and> (\<exists>v. w k = Some v \<and> v \<noteq> 0)"
  by (induction ks arbitrary: fk) (auto simp: getitem_def split: sum.splits option.splits if_splits)

lemma filter_keys_mem:
  "filter_keys w ks = Inr fk \<Longrightarrow> k \<in> set ks \<Longrightarrow> w k = Some v \<Longrightarrow> v \<noteq> 0 \<Longrightarrow> k \<in> set fk"
  by (induction ks arbitrary: fk) (auto simp: getitem_def split: sum.splits option.splits if_splits)

lemma filter_keys_weight:
  "filter_keys w ks = Inr fk \<Longrightarrow> k \<in> set ks \<Longrightarrow> \<exists>v. w k = Some v"
proof (induction ks arbitrary: fk)
  case Nil then show ?case by simp
next
  case (Cons x xs) then show ?case
    by (cases "x = k") (auto simp: getitem_def split: sum.splits option.splits)
qed

lemma load_key_dom: "load_key C rd md b m key = Inr m' \<Longrightarrow> dom m' \<subseteq> insert key (dom m)"
  by (auto simp: load_key_def store_meas_def split: if_splits sum.splits)

lemma load_key_other: "load_key C rd md b m key = Inr m' \<Longrightarrow> k \<noteq> key \<Longrightarrow> m' k = m k"
  by (auto simp: load_key_def store_meas_def split: if_splits sum.splits)

lemma load_keys_dom: "load_keys C rd md b ks m = Inr m' \<Longrightarrow> dom m' \<subseteq> set ks \<union> dom m"
proof (induction ks arbitrary: m)
  case Nil then show ?case by simp
next
  case (Cons k ks)
  then obtain m1 where a: "load_key C rd md b m k = Inr m1"
    and b: "load_keys C rd md b ks m1 = Inr m'"
    by (auto split: sum.splits)
  from Cons.IH[OF b] load_key_dom[OF a] show ?case by auto
qed

lemma load_keys_other:
  "load_keys C rd md b ks m = Inr m' \<Longrightarrow> k \<notin> set ks \<Longrightarrow> m' k = m k"
proof (induction ks arbitrary: m)
  case Nil then show ?case by simp
next
  case (Cons x xs)
  then obtain m1 where a: "load_key C rd md b m x = Inr m1"
    and b: "load_keys C rd md b xs m1 = Inr m'"
    by (auto split: sum.splits)
  from Cons.prems have "k \<noteq> x" "k \<notin> set xs" by auto
  with Cons.IH[OF b] load_key_other[OF a, of k] show ?case by auto
qed

lemma load_key_Q:
  "load_key C rd md b m ''Q'' = Inr m' \<Longrightarrow> \<exists>t. tune_table C rd md = Inr t \<and> m' ''Q'' = Some t"
  by (auto simp: load_key_def store_meas_def split: if_splits sum.splits)

lemma load_keys_Q:
  "load_keys C rd md b ks m = Inr m' \<Longrightarrow> ''Q'' \<in> set ks \<Longrightarrow>
   \<exists>t. tune_table C rd md = Inr t \<and> m' ''Q'' = Some t"
proof (induction ks arbitrary: m)
  case Nil then show ?case by simp
next
  case (Cons k ks)
  then obtain m1 where a: "load_key C rd md b m k = Inr m1"
    and b: "load_keys C rd md b ks m1 = Inr m'"
    by (auto split: sum.splits)
  show ?case
  proof (cases "''Q'' \<in> set ks")
    case True
    from Cons.IH[OF b True] show ?thesis .
  next
    case False
    with Cons.prems have k: "k = ''Q''" by simp
    from load_key_Q[OF a[unfolded k]] obtain t where
      t: "tune_table C rd md = Inr t" "m1 ''Q'' = Some t" by blast
    from load_keys_other[OF b False] t show ?thesis by simp
  qed
qed

text \<open>
  C7. When \<open>_get_measurment_data\<close> returns, a key of weight zero is neither in the
  returned key list nor in the measurement dictionary. When \<open>"Q"\<close> is a requested key of
  nonzero weight, the horizontal phase file (\<open>PHASE_NAME\<close>, \<open>x\<close>, \<open>EXT\<close> in the measurement
  directory) was read, \<open>Q1\<close> and \<open>Q2\<close> were taken from its headers, and the table stored
  under \<open>"Q"\<close> has the index \<open>Q1, Q2\<close>, the \<open>ERROR\<close> column \<open>0.001, 0.001\<close> and the \<open>VALUE\<close>
  column of the fractional parts of the two tunes (the two column names being different).
\<close>

theorem get_measurment_data_weights_and_tune:
  assumes "get_measurment_data C rd keys meas_dir bfn w = Inr (fkeys, m)"
  shows "(\<forall>k. w k = Some 0 \<longrightarrow> k \<notin> set fkeys \<and> m k = None)
    \<and> (''Q'' \<in> set keys \<and> w ''Q'' \<noteq> Some 0 \<longrightarrow>
         (\<exists>f q1 q2 t. rd (path_join meas_dir (PHASE_NAME C @ ''x'' @ EXT C)) = Inr f
             \<and> tfs_getitem f ''Q1'' = Inr (Header q1) \<and> tfs_getitem f ''Q2'' = Inr (Header q2)
             \<and> m ''Q'' = Some t \<and> tfs_index t = [''Q1'', ''Q2'']
             \<and> tfs_columns t (ERROR C) = Some [Some (1 / 1000), Some (1 / 1000)]
             \<and> (VALUE C \<noteq> ERROR C \<longrightarrow>
                  tfs_columns t (VALUE C) = Some [map_option frac q1, map_option frac q2])))"
proof -
  from assms obtain fk: "filter_keys w keys = Inr fkeys"
    and lk: "load_keys C rd meas_dir bfn fkeys Map.empty = Inr m"
    by (auto simp: get_measurment_data_def split: sum.splits)
  have a: "\<forall>k. w k = Some 0 \<longrightarrow> k \<notin> set fkeys \<and> m k = None"
  proof (intro allI impI)
    fix k assume k: "w k = Some 0"
    have n: "k \<notin> set fkeys" using filter_keys_set[OF fk, of k] k by auto
    moreover have "m k = None" using load_keys_other[OF lk n] by simp
    ultimately show "k \<notin> set fkeys \<and> m k = None" by simp
  qed
  have b: "''Q'' \<in> set keys \<and> w ''Q'' \<noteq> Some 0 \<longrightarrow>
         (\<exists>f q1 q2 t. rd (path_join meas_dir (PHASE_NAME C @ ''x'' @ EXT C)) = Inr f
             \<and> tfs_getitem f ''Q1'' = Inr (Header q1) \<and> tfs_getitem f ''Q2'' = Inr (Header q2)
             \<and> m ''Q'' = Some t \<and> tfs_index t = [''Q1'', ''Q2'']
             \<and> tfs_columns t (ERROR C) = Some [Some (1 / 1000), Some (1 / 1000)]
             \<and> (VALUE C \<noteq> ERROR C \<longrightarrow>
                  tfs_columns t (VALUE C) = Some [map_option frac q1, map_option frac q2]))"
  proof
    assume q: "''Q'' \<in> set keys \<and> w ''Q'' \<noteq> Some 0"
    from filter_keys_weight[OF fk] q obtain v where "w ''Q'' = Some v" "v \<noteq> 0" by auto
    with filter_keys_mem[OF fk] q have "''Q'' \<in> set fkeys" by blast
    from load_keys_Q[OF lk this] obtain t where
      t: "tune_table C rd meas_dir = Inr t" "m ''Q'' = Some t" by blast
    from t(1) show "\<exists>f q1 q2 t. rd (path_join meas_dir (PHASE_NAME C @ ''x'' @ EXT C)) = Inr f
             \<and> tfs_getitem f ''Q1'' = Inr (Header q1) \<and> tfs_getitem f ''Q2'' = Inr (Header q2)
             \<and> m ''Q'' = Some t \<and> tfs_index t = [''Q1'', ''Q2'']
             \<and> tfs_columns t (ERROR C) = Some [Some (1 / 1000), Some (1 / 1000)]
             \<and> (VALUE C \<noteq> ERROR C \<longrightarrow>
                  tfs_columns t (VALUE C) = Some [map_option frac q1, map_option frac q2])"
      using t(2)
      by (auto simp: tune_table_def read_meas_def remainder1_def split: sum.splits item.splits)
  qed
  from a b show ?thesis by blast
qed

lemma tune_table_demo_eq: "tune_table consts_demo read_demo ''meas'' = Inr tune_table_demo"
  by (simp add: tune_table_def read_meas_def path_join_def suffix_def consts_demo_def
      read_demo_def tfs_getitem_def phase_x_demo_def remainder1_def frac_def tune_table_demo_def)

lemma get_measurment_data_demo:
  "get_measurment_data consts_demo read_demo [''MUX'', ''Q''] ''meas'' ''beta_phase_''
      [''MUX'' \<mapsto> 0, ''Q'' \<mapsto> 1]
   = Inr ([''Q''], [''Q'' \<mapsto> tune_table_demo])"
  by (simp add: get_measurment_data_def getitem_def load_key_def store_meas_def tune_table_demo_eq)

text \<open>
  The keys \<open>MUX\<close> (weight 0) and \<open>Q\<close> (weight 1) with the tunes 62.31 and 60.32 in the
  header of \<open>meas/phase_x.tfs\<close>: only \<open>Q\<close> is returned and loaded, with the values 0.31 and 0.32.
\<close>

theorem get_measurment_data_weights_and_tune_witness:
  "get_measurment_data consts_demo read_demo [''MUX'', ''Q''] ''meas'' ''beta_phase_''
      [''MUX'' \<mapsto> 0, ''Q'' \<mapsto> 1]
   = Inr ([''Q''], [''Q'' \<mapsto> tune_table_demo])
   \<and> ''MUX'' \<notin> set [''Q''] \<and> [''Q'' \<mapsto> tune_table_demo] ''MUX'' = None
   \<and> tfs_index tune_table_demo = [''Q1'', ''Q2'']
   \<and> tfs_columns tune_table_demo ''ERROR'' = Some [Some (1 / 1000), Some (1 / 1000)]
   \<and> tfs_columns tune_table_demo ''VALUE'' = Some [Some (31 / 100), Some (32 / 100)]"
proof -
  note t = get_measurment_data_weights_and_tune[OF get_measurment_data_demo]
  have w0: "[''MUX'' \<mapsto> 0 :: real, ''Q'' \<mapsto> 1] ''MUX'' = Some 0" by simp
  from t w0 have a: "''MUX'' \<notin> set [''Q''] \<and> [''Q'' \<mapsto> tune_table_demo] ''MUX'' = None" by blast
  have q: "''Q'' \<in> set [''MUX'', ''Q''] \<and> [''MUX'' \<mapsto> 0 :: real, ''Q'' \<mapsto> 1] ''Q'' \<noteq> Some 0" by simp
  from t q obtain f q1 q2 tt where
    r: "read_demo (path_join ''meas'' (PHASE_NAME consts_demo @ ''x'' @ EXT consts_demo)) = Inr f"
    and g1: "tfs_getitem f ''Q1'' = Inr (Header q1)" and g2: "tfs_getitem f ''Q2'' = Inr (Header q2)"
    and m: "[''Q'' \<mapsto> tune_table_demo] ''Q'' = Some tt"
    and ix: "tfs_index tt = [''Q1'', ''Q2'']"
    and er: "tfs_columns tt (ERROR consts_demo) = Some [Some (1 / 1000), Some (1 / 1000)]"
    and va: "VALUE consts_demo \<noteq> ERROR consts_demo \<longrightarrow>
               tfs_columns tt (VALUE consts_demo) = Some [map_option frac q1, map_option frac q2]"
    by blast
  from m have tt: "tt = tune_table_demo" by simp
  from r have f: "f = phase_x_demo"
    by (simp add: read_demo_def path_join_def suffix_def consts_demo_def split: if_splits)
  from g1 f have q1: "q1 = Some (6231 / 100)" by (simp add: tfs_getitem_def phase_x_demo_def)
  from g2 f have q2: "q2 = Some (6032 / 100)" by (simp add: tfs_getitem_def phase_x_demo_def)
  from va have v: "tfs_columns tune_table_demo ''VALUE'' = Some [Some (31 / 100), Some (32 / 100)]"
    by (simp add: tt q1 q2 consts_demo_def frac_def)
  from ix er have "tfs_index tune_table_demo = [''Q1'', ''Q2'']"
    "tfs_columns tune_table_demo ''ERROR'' = Some [Some (1 / 1000), Some (1 / 1000)]"
    by (simp_all add: tt consts_demo_def)
  with a v get_measurment_data_demo show ?thesis by simp
qed

section \<open>Systematic errors: the misalignment term\<close>

lemma apply_errdef_name: "el_name (apply_errdef e r) = el_name r"
  by (simp add: apply_errdef_def Let_def)

lemma apply_errdef_dX: "dX (apply_errdef e r) = err_dX e * 2"
  by (simp add: apply_errdef_def Let_def)

lemma apply_errdef_UNC: "UNC (apply_errdef e r)"
  by (simp add: apply_errdef_def Let_def)

lemma row_selection_step:
  assumes "row_selection re (PATTERN e) tw = Inr sel"
  shows "map2 (\<lambda>s r. if s then apply_errdef e r else r) sel tw
           = map (\<lambda>r. if selects re e (el_name r) then apply_errdef e r else r) tw"
proof -
  have "sel = map (\<lambda>r. selects re e (el_name r)) tw"
    using assms
    by (auto simp: row_selection_def selects_def split: if_splits list.splits sum.splits)
  then show ?thesis by (simp add: zip_map1 map2_map_map[symmetric] zip_same_conv_map comp_def)
qed

text \<open>The loop treats every row on its own.\<close>

lemma assign_loop_rows: "assign_loop re es tw = Inr tw' \<Longrightarrow> tw' = map (row_final re es) tw"
proof (induction es arbitrary: tw)
  case Nil then show ?case by (simp add: row_final_def)
next
  case (Cons e es)
  then obtain sel where s: "row_selection re (PATTERN e) tw = Inr sel"
    and l: "assign_loop re es (map2 (\<lambda>s r. if s then apply_errdef e r else r) sel tw) = Inr tw'"
    by (auto split: sum.splits)
  from Cons.IH[OF l] row_selection_step[OF s] show ?case
    by (simp add: row_final_def comp_def)
qed

lemma last_selecting_Cons:
  "last_selecting re (e # es) n =
     (case last_selecting re es n of
        Some x \<Rightarrow> Some x
      | None \<Rightarrow> if selects re e n then Some e else None)"
  by (simp add: last_selecting_def split: list.splits)

lemma row_final_props:
  "el_name (row_final re es r) = el_name r
   \<and> dX (row_final re es r)
       = (case last_selecting re es (el_name r) of None \<Rightarrow> dX r | Some e \<Rightarrow> 2 * err_dX e)
   \<and> UNC (row_final re es r) = (UNC r \<or> last_selecting re es (el_name r) \<noteq> None)"
proof (induction es arbitrary: r)
  case Nil then show ?case by (simp add: row_final_def last_selecting_def)
next
  case (Cons e es)
  let ?r' = "if selects re e (el_name r) then apply_errdef e r else r"
  have f: "row_final re (e # es) r = row_final re es ?r'" by (simp add: row_final_def)
  have n: "el_name ?r' = el_name r" by (simp add: apply_errdef_name)
  from Cons.IH[of ?r'] show ?case
    unfolding f n
    by (auto simp: last_selecting_Cons apply_errdef_dX apply_errdef_UNC split: option.splits)
qed

lemma map2_set_left: "r \<in> set (map2 g xs ys) \<Longrightarrow> \<exists>x\<in>set xs. \<exists>v. r = g x v"
  by (auto dest: set_zip_leftD)

lemma map2_covers: "length ys = length xs \<Longrightarrow> x \<in> set xs \<Longrightarrow> \<exists>v. g x v \<in> set (map2 g xs ys)"
proof -
  assume l: "length ys = length xs" and x: "x \<in> set xs"
  then obtain i where i: "i < length xs" "xs ! i = x" by (auto simp: in_set_conv_nth)
  with l have "(x, ys ! i) \<in> set (zip xs ys)" by (auto simp: set_zip)
  then show ?thesis by force
qed

lemma length_roll_right: "length (roll_right xs) = length xs"
  by (cases xs rule: rev_cases) (simp_all add: roll_right_def)

lemma length_roll_left: "length (roll_left xs) = length xs"
  by (cases xs) (simp_all add: roll_left_def)

text \<open>The rolled columns and the final selection keep the name and the \<open>dX\<close> of a row.\<close>

lemma post_rows:
  fixes tw1 :: "element list"
  defines "tw2 \<equiv> map2 (\<lambda>r v. r\<lparr>mKdS := v\<rparr>) tw1 (roll_right (map KdS tw1))"
  defines "tw3 \<equiv> map2 (\<lambda>r v. r\<lparr>UNC := (abs v > 1 / 10 ^ 12 \<or> UNC r)\<rparr>) tw2 (roll_left (map dK1 tw2))"
  shows "(\<forall>r\<in>set (filter UNC tw3). \<exists>r1\<in>set tw1. el_name r = el_name r1 \<and> dX r = dX r1)
       \<and> (\<forall>r1\<in>set tw1. UNC r1 \<longrightarrow> (\<exists>r\<in>set (filter UNC tw3). el_name r = el_name r1))"
proof (intro conjI ballI impI)
  fix r assume "r \<in> set (filter UNC tw3)"
  then have "r \<in> set tw3" by simp
  then obtain x and v :: real where
    x: "x \<in> set tw2" "r = x\<lparr>UNC := (abs v > 1 / 10 ^ 12 \<or> UNC x)\<rparr>"
    unfolding tw3_def by (blast dest: map2_set_left)
  from x(1) obtain r1 v' where r1: "r1 \<in> set tw1" "x = r1\<lparr>mKdS := v'\<rparr>"
    unfolding tw2_def by (blast dest: map2_set_left)
  from x(2) r1 show "\<exists>r1\<in>set tw1. el_name r = el_name r1 \<and> dX r = dX r1" by auto
next
  fix r1 assume r1: "r1 \<in> set tw1" and u: "UNC r1"
  have len1: "length (roll_right (map KdS tw1)) = length tw1" by (simp add: length_roll_right)
  from map2_covers[OF len1 r1, of "\<lambda>r v. r\<lparr>mKdS := v\<rparr>"]
  obtain v where v: "r1\<lparr>mKdS := v\<rparr> \<in> set tw2" unfolding tw2_def by blast
  have len2: "length (roll_left (map dK1 tw2)) = length tw2" by (simp add: length_roll_left)
  from map2_covers[OF len2 v, of "\<lambda>r v. r\<lparr>UNC := (abs v > 1 / 10 ^ 12 \<or> UNC r)\<rparr>"]
  obtain v2 :: real where
    "(r1\<lparr>mKdS := v\<rparr>)\<lparr>UNC := (abs v2 > 1 / 10 ^ 12 \<or> UNC (r1\<lparr>mKdS := v\<rparr>))\<rparr> \<in> set tw3"
    unfolding tw3_def by blast
  with u show "\<exists>r\<in>set (filter UNC tw3). el_name r = el_name r1"
    by (intro bexI[where x="(r1\<lparr>mKdS := v\<rparr>)\<lparr>UNC := (abs v2 > 1 / 10 ^ 12 \<or> UNC (r1\<lparr>mKdS := v\<rparr>))\<rparr>"]) auto
qed

lemma assign_uncertainties_overlap:
  "assign_uncertainties no_regex [(''Q1'', 1)] errdefs_overlap
     = Inr [\<lparr>el_name = ''Q1'', K1L = 1, UNC = True, dK1 = 0, KdS = 0, mKdS = 0, dX = 6, BPMdS = 0\<rparr>]"
  by (simp add: assign_uncertainties_def errdefs_overlap_def row_selection_def apply_errdef_def
      roll_right_def roll_left_def Let_def)

text \<open>
  C4, as stated, fails where patterns overlap. The element \<open>Q1\<close> is selected by two error
  definitions with the misalignment values 1 and 3. Additive contributions of twice each value
  would give \<open>dX = 8\<close>; the function returns \<open>dX = 6\<close>, twice the value of the second
  definition.
\<close>

theorem dX_overlap_counterexample:
  "assign_uncertainties no_regex [(''Q1'', 1)] errdefs_overlap
     = Inr [\<lparr>el_name = ''Q1'', K1L = 1, UNC = True, dK1 = 0, KdS = 0, mKdS = 0, dX = 6, BPMdS = 0\<rparr>]
   \<and> map PATTERN errdefs_overlap = [''key:Q1'', ''key:Q1'']
   \<and> map err_dX errdefs_overlap = [1, 3]
   \<and> (6 :: real) \<noteq> 2 * 1 + 2 * 3"
  by (simp add: assign_uncertainties_overlap) (simp add: errdefs_overlap_def)

text \<open>
  C4, amended. In the table that \<open>_assign_uncertainties\<close> returns, the \<open>dX\<close> of a row is
  twice the misalignment value of the last error definition, in the order of the file, whose
  pattern selects the name of the row (0 when none does): the term is assigned, and a later
  match overwrites an earlier one. Every element that a pattern selects is in the returned
  table.
\<close>

theorem dX_is_twice_last_match:
  assumes "assign_uncertainties re twiss errdefs = Inr out"
  shows "(\<forall>r\<in>set out. dX r = (case last_selecting re errdefs (el_name r) of
                                  None \<Rightarrow> 0 | Some e \<Rightarrow> 2 * err_dX e))
    \<and> (\<forall>nk\<in>set twiss. last_selecting re errdefs (fst nk) \<noteq> None \<longrightarrow>
          (\<exists>r\<in>set out. el_name r = fst nk))"
proof -
  let ?init = "\<lambda>nk. \<lparr>el_name = fst nk, K1L = snd nk, UNC = False, dK1 = 0, KdS = 0,
                            mKdS = 0, dX = 0, BPMdS = 0\<rparr>"
  let ?tw0 = "map ?init twiss"
  from assms obtain tw1 where l: "assign_loop re errdefs ?tw0 = Inr tw1"
    and o: "out = filter UNC (map2 (\<lambda>r v. r\<lparr>UNC := (abs v > 1 / 10 ^ 12 \<or> UNC r)\<rparr>)
                 (map2 (\<lambda>r v. r\<lparr>mKdS := v\<rparr>) tw1 (roll_right (map KdS tw1)))
                 (roll_left (map dK1 (map2 (\<lambda>r v. r\<lparr>mKdS := v\<rparr>) tw1 (roll_right (map KdS tw1))))))"
    by (auto simp: assign_uncertainties_def Let_def split: sum.splits)
  from assign_loop_rows[OF l] have t: "tw1 = map (row_final re errdefs) ?tw0" .
  note p = post_rows[of tw1, folded o]
  have a: "\<forall>r\<in>set out. dX r = (case last_selecting re errdefs (el_name r) of
                                  None \<Rightarrow> 0 | Some e \<Rightarrow> 2 * err_dX e)"
  proof
    fix r assume "r \<in> set out"
    with p obtain r1 where r1: "r1 \<in> set tw1" "el_name r = el_name r1" "dX r = dX r1" by blast
    from r1(1) t obtain nk where nk: "r1 = row_final re errdefs (?init nk)" by auto
    from row_final_props[of re errdefs "?init nk"] nk r1
    show "dX r = (case last_selecting re errdefs (el_name r) of
                    None \<Rightarrow> 0 | Some e \<Rightarrow> 2 * err_dX e)"
      by (simp split: option.splits)
  qed
  have b: "\<forall>nk\<in>set twiss. last_selecting re errdefs (fst nk) \<noteq> None \<longrightarrow>
             (\<exists>r\<in>set out. el_name r = fst nk)"
  proof (intro ballI impI)
    fix nk assume nk: "nk \<in> set twiss" and ls: "last_selecting re errdefs (fst nk) \<noteq> None"
    let ?r1 = "row_final re errdefs (?init nk)"
    from nk t have m: "?r1 \<in> set tw1" by simp
    from row_final_props[of re errdefs "?init nk"] ls
    have u: "UNC ?r1" and n: "el_name ?r1 = fst nk" by simp_all
    from p m u obtain r where "r \<in> set out" "el_name r = el_name ?r1" by blast
    with n show "\<exists>r\<in>set out. el_name r = fst nk" by auto
  qed
  from a b show ?thesis by blast
qed

text \<open>On the overlapping definitions the last one selecting \<open>Q1\<close> has the value 3, and \<open>dX\<close> is 6.\<close>

theorem dX_is_twice_last_match_witness:
  "last_selecting no_regex errdefs_overlap ''Q1'' = Some (errdefs_overlap ! 1)
   \<and> err_dX (errdefs_overlap ! 1) = 3
   \<and> dX \<lparr>el_name = ''Q1'', K1L = 1, UNC = True, dK1 = 0, KdS = 0, mKdS = 0, dX = 6, BPMdS = 0\<rparr>
       = 2 * err_dX (errdefs_overlap ! 1)
   \<and> ''Q1'' \<in> el_name ` set [\<lparr>el_name = ''Q1'', K1L = 1, UNC = True, dK1 = 0, KdS = 0,
                                 mKdS = 0, dX = 6, BPMdS = 0\<rparr>]"
proof -
  have ls: "last_selecting no_regex errdefs_overlap ''Q1'' = Some (errdefs_overlap ! 1)"
    by (simp add: last_selecting_def errdefs_overlap_def selects_def)
  have v: "err_dX (errdefs_overlap ! 1) = 3" by (simp add: errdefs_overlap_def)
  note t = dX_is_twice_last_match[OF assign_uncertainties_overlap]
  from t ls have "dX \<lparr>el_name = ''Q1'', K1L = 1, UNC = True, dK1 = 0, KdS = 0, mKdS = 0, dX = 6,
                      BPMdS = 0\<rparr> = 2 * err_dX (errdefs_overlap ! 1)"
    by simp
  with ls v show ?thesis by simp
qed

section \<open>N-BPM method: degenerate covariance matrices\<close>

text \<open>
  A BPM whose covariance matrix of the betas or of the alphas has no nonzero entry (which
  includes the empty matrix of a BPM without combinations) is skipped: it gets the row of
  zeros with \<open>NCOMB = 0\<close>, and the loop goes on with the next BPM.
\<close>

lemma n_bpm_loop_skips_zero_covariance:
  assumes "\<not> (np_any (covariance (mat_t_beta b) (diag b)) \<and> np_any (covariance (mat_t_alpha b) (diag b)))"
  shows "n_bpm_loop pinv (b # bs) =
           (case n_bpm_loop pinv bs of
              Inl e \<Rightarrow> Inl e
            | Inr rest \<Rightarrow> Inr (\<lparr>NAME = probed_bpm_name b, BET = 0, ERRBET = 0, ALF = 0,
                                 ERRALF = 0, NCOMB = 0\<rparr> # rest))"
  using assms by (auto simp: Let_def)

lemma covariance_singular:
  "covariance (mat_t_beta bpm_singular) (diag bpm_singular) = [[1, - 1], [- 1, 1]]"
  "covariance (mat_t_alpha bpm_singular) (diag bpm_singular) = [[1, - 1], [- 1, 1]]"
  by (simp_all add: covariance_def bpm_singular_def masked_def np_diag_def mat_mul_def Let_def)

lemma covariance_good:
  "covariance (mat_t_beta bpm_good) (diag bpm_good) = [[1]]"
  "covariance (mat_t_alpha bpm_good) (diag bpm_good) = [[1]]"
  by (simp_all add: covariance_def bpm_good_def masked_def np_diag_def mat_mul_def Let_def)

lemma covariant_weighting_singular:
  "covariant_weighting pinv_demo [[1, - 1], [- 1, 1]] col = Inl ValueError"
  by (simp add: covariant_weighting_def pinv_demo_def Let_def)

lemma covariant_weighting_good: "covariant_weighting pinv_demo [[1]] [x] = Inr (x, 1)"
  by (simp add: covariant_weighting_def pinv_demo_def mat_vec_def Let_def)

lemma n_bpm_loop_singular: "n_bpm_loop pinv_demo [bpm_singular] = Inl ValueError"
  by (simp add: covariance_singular covariant_weighting_singular np_any_def Let_def)

text \<open>
  Whenever both covariance matrices of a BPM have a nonzero entry and the entries of the
  pseudo-inverse of the first sum to zero, the loop raises at that BPM, and so does the loop
  over any list of BPMs that reaches it.
\<close>

lemma zero_weight_sum_raises:
  assumes "np_any (covariance (mat_t_beta b) (diag b))"
    and "np_any (covariance (mat_t_alpha b) (diag b))"
    and "sum_list (map sum_list (pinv (covariance (mat_t_beta b) (diag b)))) = 0"
  shows "n_bpm_loop pinv (b # bs) = Inl ValueError"
  using assms by (simp add: covariant_weighting_def Let_def)

lemma n_bpm_loop_error_propagates:
  "n_bpm_loop pinv bs = Inl e \<Longrightarrow> \<exists>e'. n_bpm_loop pinv (pre @ bs) = Inl e'"
proof (induction pre)
  case Nil then show ?case by simp
next
  case (Cons a pre)
  then obtain e' where "n_bpm_loop pinv (pre @ bs) = Inl e'" by blast
  then show ?case by (auto simp: Let_def split: sum.splits)
qed

text \<open>
  C2. The second probed BPM has the covariance matrix \<open>[[1, -1], [-1, 1]]\<close>: singular, not
  zero, and the rows of its pseudo-inverse sum to zero. \<open>_covariant_weighting\<close> raises
  \<open>ValueError\<close> and \<open>n_bpm_method\<close> does not catch it: the whole analysis fails, and the
  result of the first BPM, which the method returns when it is run on that BPM alone, is lost.
\<close>

theorem n_bpm_singular_covariance_raises:
  "covariance (mat_t_beta bpm_singular) (diag bpm_singular) = [[1, - 1], [- 1, 1]]
   \<and> moore_penrose [[1, - 1], [- 1, 1]] (pinv_demo [[1, - 1], [- 1, 1]])
   \<and> sum_list (map sum_list (pinv_demo [[1, - 1], [- 1, 1]])) = 0
   \<and> n_bpm_method pinv_demo [bpm_good, bpm_singular] = Inl ValueError
   \<and> n_bpm_method pinv_demo [bpm_good]
       = Inr [\<lparr>NAME = ''BPM1'', BET = 100, ERRBET = 1, ALF = 1, ERRALF = 1, NCOMB = 1\<rparr>]"
proof -
  have mp: "moore_penrose [[1, - 1], [- 1, 1]] (pinv_demo [[1, - 1], [- 1, 1]])"
    by (simp add: moore_penrose_def mat_mul_def pinv_demo_def)
  have s: "sum_list (map sum_list (pinv_demo [[1, - 1], [- 1, 1]])) = 0"
    by (simp add: pinv_demo_def)
  have bg: "betas bpm_good = [100]" "alphas bpm_good = [1]" "probed_bpm_name bpm_good = ''BPM1''"
    by (simp_all add: bpm_good_def)
  have l1: "n_bpm_loop pinv_demo (bpm_good # [bpm_singular]) = Inl ValueError"
    unfolding n_bpm_loop.simps(2)[of pinv_demo bpm_good "[bpm_singular]"] n_bpm_loop_singular
    by (simp add: covariance_good covariant_weighting_good bg np_any_def Let_def)
  have r2: "n_bpm_method pinv_demo [bpm_good, bpm_singular] = Inl ValueError"
    by (simp only: n_bpm_method_def l1 sum.case)
  have r1: "n_bpm_method pinv_demo [bpm_good]
       = Inr [\<lparr>NAME = ''BPM1'', BET = 100, ERRBET = 1, ALF = 1, ERRALF = 1, NCOMB = 1\<rparr>]"
    by (simp add: n_bpm_method_def covariance_good covariant_weighting_good bg np_any_def Let_def)
  from covariance_singular(1) mp s r2 r1 show ?thesis by blast
qed

section \<open>3-BPM method: the input phase matrices\<close>

lemma tilt_store: "fst (tilt_slice_matrix st addr s w t) = st(addr := corner_update s t (st addr))"
  by (simp add: tilt_slice_matrix_def Let_def)

lemma tilt_returns:
  "st addr \<noteq> [] \<Longrightarrow> length (st addr) \<le> length (hd (st addr)) \<Longrightarrow>
   \<exists>r. tilt_slice_matrix st addr s w t = (st(addr := corner_update s t (st addr)), Inr r)"
  by (simp add: tilt_slice_matrix_def Let_def)

lemma corner_update_zeros4:
  "corner_update 2 t zeros4 = [[0, 0, - t, - t], [0, 0, - t, - t], [t, t, 0, 0], [t, t, 0, 0]]"
  by (simp add: corner_update_def zeros4_def slice_start_def add_block_def enumerate_eq_zip
      upt_conv_Cons Let_def)

lemma zeros4_square: "zeros4 \<noteq> []" "length zeros4 \<le> length (hd zeros4)"
  by (simp_all add: zeros4_def)

lemma three_bpm_method_demo:
  "\<exists>r. three_bpm_method store_demo phase_demo (1 / 4) (1 / 8)
     = (store_demo(10 := corner_update 2 (1 / 4) zeros4, 11 := corner_update 2 (1 / 8) zeros4,
                   12 := corner_update 2 (1 / 8) zeros4), Inr r)"
proof -
  let ?s1 = "store_demo(10 := corner_update 2 (1 / 4) zeros4)"
  let ?s2 = "?s1(11 := corner_update 2 (1 / 8) zeros4)"
  have a0: "store_demo 10 = zeros4" by (simp add: store_demo_def)
  have a1: "?s1 11 = zeros4" by (simp add: store_demo_def)
  have a2: "?s2 12 = zeros4" by (simp add: store_demo_def)
  obtain r1 where r1: "tilt_slice_matrix store_demo 10 2 5 (1 / 4) = (?s1, Inr r1)"
    using tilt_returns[of store_demo 10 2 5 "1 / 4"] zeros4_square unfolding a0 by blast
  obtain r2 where r2: "tilt_slice_matrix ?s1 11 2 5 (1 / 8) = (?s2, Inr r2)"
    using tilt_returns[of ?s1 11 2 5 "1 / 8"] zeros4_square unfolding a1 by blast
  obtain r3 where r3: "tilt_slice_matrix ?s2 12 2 5 (1 / 8)
                         = (?s2(12 := corner_update 2 (1 / 8) zeros4), Inr r3)"
    using tilt_returns[of ?s2 12 2 5 "1 / 8"] zeros4_square unfolding a2 by blast
  show ?thesis
    by (simp add: three_bpm_method_def phase_demo_def r1 r2 r3)
qed

text \<open>
  The change does not depend on the example. For square phase matrices of at least three
  BPMs in separate buffers, the entry in the last row and first column of \<open>MEAS\<close> is larger
  by the tune after the call.
\<close>

lemma add_block_nth:
  assumes "i < length M" and "j < length (M ! i)"
  shows "add_block r0 r1 c0 c1 t M ! i ! j
           = (if r0 \<le> i \<and> i < r1 \<and> c0 \<le> j \<and> j < c1 then M ! i ! j + t else M ! i ! j)"
  using assms by (simp add: add_block_def nth_enumerate_eq)

lemma add_block_shape:
  "length (add_block r0 r1 c0 c1 t M) = length M"
  "i < length M \<Longrightarrow> length (add_block r0 r1 c0 c1 t M ! i) = length (M ! i)"
  by (simp_all add: add_block_def nth_enumerate_eq)

lemma corner_update_last_row:
  assumes "length M = n" and "3 \<le> n" and "length (hd M) = n" and "length (M ! (n - 1)) = n"
  shows "corner_update 2 t M ! (n - 1) ! 0 = M ! (n - 1) ! 0 + t"
proof -
  have ne: "M \<noteq> []" using assms by auto
  have i: "n - 1 < length M" using assms by simp
  have s0: "slice_start n (int n - 2) = n - 2" using assms by (simp add: slice_start_def)
  let ?m1 = "add_block (n - 2) n 0 2 t M"
  have a: "?m1 ! (n - 1) ! 0 = M ! (n - 1) ! 0 + t"
    using assms i by (subst add_block_nth) auto
  have l1: "n - 1 < length ?m1" "0 < length (?m1 ! (n - 1))"
    using assms i by (simp_all add: add_block_shape)
  have b: "add_block 0 2 (n - 2) n (- t) ?m1 ! (n - 1) ! 0 = ?m1 ! (n - 1) ! 0"
    using assms l1 by (subst add_block_nth) auto
  show ?thesis
    using a b assms ne by (simp add: corner_update_def s0 Let_def min_def)
qed

lemma three_bpm_method_changes_meas:
  assumes "length (st (MEAS phase)) = n" and "3 \<le> n" and "length (hd (st (MEAS phase))) = n"
    and "length (st (MEAS phase) ! (n - 1)) = n"
    and "MODEL phase \<noteq> MEAS phase" and "ERRMEAS phase \<noteq> MEAS phase"
  shows "fst (three_bpm_method st phase tune mdltune) (MEAS phase) ! (n - 1) ! 0
           = st (MEAS phase) ! (n - 1) ! 0 + tune"
proof -
  have ne: "st (MEAS phase) \<noteq> []" using assms by auto
  obtain r1 where r1: "tilt_slice_matrix st (MEAS phase) 2 5 tune
       = (st(MEAS phase := corner_update 2 tune (st (MEAS phase))), Inr r1)"
    using assms ne by (auto simp: tilt_slice_matrix_def Let_def)
  let ?s1 = "st(MEAS phase := corner_update 2 tune (st (MEAS phase)))"
  have k: "\<And>s a w t. a \<noteq> MEAS phase \<Longrightarrow>
             fst (tilt_slice_matrix s a 2 w t) (MEAS phase) = s (MEAS phase)"
    by (simp add: tilt_slice_matrix_def Let_def)
  have "fst (three_bpm_method st phase tune mdltune) (MEAS phase) = ?s1 (MEAS phase)"
  proof -
    obtain s2 x2 where t2: "tilt_slice_matrix ?s1 (MODEL phase) 2 5 mdltune = (s2, x2)" by force
    have s2: "s2 (MEAS phase) = ?s1 (MEAS phase)"
      using k[OF assms(5), of ?s1 5 mdltune] t2 by simp
    obtain s3 x3 where t3: "tilt_slice_matrix s2 (ERRMEAS phase) 2 5 mdltune = (s3, x3)" by force
    have s3: "s3 (MEAS phase) = s2 (MEAS phase)"
      using k[OF assms(6), of s2 5 mdltune] t3 by simp
    show ?thesis
      using s2 s3 by (auto simp: three_bpm_method_def r1 t2 t3 split: sum.splits)
  qed
  then show ?thesis using corner_update_last_row[OF assms(1-4), of tune] by simp
qed

text \<open>
  C9. The three phase matrices of four BPMs are zero before the call, with the measured
  tune 1/4 and the model tune 1/8. \<open>three_bpm_method\<close> returns, and afterwards the buffer of
  \<open>MEAS\<close> holds 1/4 and -1/4 in its corner blocks, the buffers of \<open>MODEL\<close> and \<open>ERRMEAS\<close> hold
  1/8 and -1/8 there: the entries of the input matrices have changed.
\<close>

theorem three_bpm_method_changes_phase_matrices:
  "store_demo (MEAS phase_demo) = zeros4
   \<and> store_demo (MODEL phase_demo) = zeros4
   \<and> store_demo (ERRMEAS phase_demo) = zeros4
   \<and> \<not> isl (snd (three_bpm_method store_demo phase_demo (1 / 4) (1 / 8)))
   \<and> fst (three_bpm_method store_demo phase_demo (1 / 4) (1 / 8)) (MEAS phase_demo)
       = [[0, 0, - 1 / 4, - 1 / 4], [0, 0, - 1 / 4, - 1 / 4], [1 / 4, 1 / 4, 0, 0], [1 / 4, 1 / 4, 0, 0]]
   \<and> fst (three_bpm_method store_demo phase_demo (1 / 4) (1 / 8)) (MODEL phase_demo)
       = [[0, 0, - 1 / 8, - 1 / 8], [0, 0, - 1 / 8, - 1 / 8], [1 / 8, 1 / 8, 0, 0], [1 / 8, 1 / 8, 0, 0]]
   \<and> fst (three_bpm_method store_demo phase_demo (1 / 4) (1 / 8)) (ERRMEAS phase_demo)
       = [[0, 0, - 1 / 8, - 1 / 8], [0, 0, - 1 / 8, - 1 / 8], [1 / 8, 1 / 8, 0, 0], [1 / 8, 1 / 8, 0, 0]]"
proof -
  from three_bpm_method_demo obtain r where
    r: "three_bpm_method store_demo phase_demo (1 / 4) (1 / 8)
     = (store_demo(10 := corner_update 2 (1 / 4) zeros4, 11 := corner_update 2 (1 / 8) zeros4,
                   12 := corner_update 2 (1 / 8) zeros4), Inr r)" by blast
  show ?thesis
    unfolding r by (simp add: phase_demo_def store_demo_def corner_update_zeros4)
qed

end
